theory Spec2Isabelle
  imports Main "HOL-Library.Word"
begin

text \<open>
  The pairing approval workflow of the gateway: channel resolution, the two gateway
  methods \<open>channel.pair.list\<close> and \<open>channel.pair.approve\<close>, and the HTTP handler
  \<open>handlePairingHttpRequest\<close>. Each handler is a function from its input and its
  collaborators to the list of calls it makes and to its response.
\<close>

section \<open>JavaScript strings\<close>

text \<open>
  In the handlers a JavaScript string is a \<^typ>\<open>string\<close>, each \<^typ>\<open>char\<close> read as one code
  unit in the range U+0000..U+00FF. On this range \<open>String.prototype.trim\<close> and
  \<open>String.prototype.toLowerCase\<close> are written out exactly: the white space and line
  terminators below U+0100 are TAB, LF, VT, FF, CR, SPACE and NO-BREAK SPACE, and the
  letters with a lower-case partner are A..Z and U+00C0..U+00DE without U+00D7.
  Channel resolution is written out a second time on all strings of 16-bit code units
  (\<open>resolveChannel16\<close> below), and \<open>resolveChannel_restricts\<close> shows that the 8-bit
  resolver is its restriction.
\<close>

definition codeUnit :: "char \<Rightarrow> nat" where
  "codeUnit c = of_char c"

definition isWhiteSpace :: "char \<Rightarrow> bool" where
  "isWhiteSpace c = (codeUnit c \<in> {9, 10, 11, 12, 13, 32, 160})"

definition trim :: "string \<Rightarrow> string" where
  "trim s = rev (dropWhile isWhiteSpace (rev (dropWhile isWhiteSpace s)))"

definition lowerChar :: "char \<Rightarrow> char" where
  "lowerChar c =
     (let n = codeUnit c in
      if (65 \<le> n \<and> n \<le> 90) \<or> (192 \<le> n \<and> n \<le> 222 \<and> n \<noteq> 215)
      then char_of (n + 32) else c)"

definition toLowerCase :: "string \<Rightarrow> string" where
  "toLowerCase s = map lowerChar s"

text \<open>\<open>s.startsWith(p)\<close>, \<open>s.slice(n)\<close> for \<open>0 \<le> n\<close>, and \<open>s.split(c)\<close> for a one-character
  separator: the empty string splits into one empty piece.\<close>

definition startsWith :: "string \<Rightarrow> string \<Rightarrow> bool" where
  "startsWith s p = (take (length p) s = p)"

definition slice :: "string \<Rightarrow> nat \<Rightarrow> string" where
  "slice s n = drop n s"

fun split :: "char \<Rightarrow> string \<Rightarrow> string list" where
  "split sep [] = [[]]"
| "split sep (c # cs) =
     (if c = sep then [] # split sep cs
      else (case split sep cs of
              [] \<Rightarrow> [[c]]
            | w # ws \<Rightarrow> (c # w) # ws))"

section \<open>Regular expressions\<close>

text \<open>
  The fragment of regular expressions that the channel pattern uses: a character class
  given by its ranges, concatenation, and bounded repetition \<open>r{lo,hi}\<close>. The matcher
  returns, for each way the expression can match a prefix of the input, the rest of the
  input; \<open>regexTest\<close> is a match anchored at both ends (\<open>^\<close> and \<open>$\<close> without flags).
\<close>

datatype regex =
    CharClass "(char \<times> char) list"
  | Seq regex regex
  | Bounded regex nat nat

definition inClass :: "(char \<times> char) list \<Rightarrow> char \<Rightarrow> bool" where
  "inClass rs c = list_ex (\<lambda>(lo, hi). codeUnit lo \<le> codeUnit c \<and> codeUnit c \<le> codeUnit hi) rs"

fun repeat :: "('a list \<Rightarrow> 'a list list) \<Rightarrow> nat \<Rightarrow> nat \<Rightarrow> 'a list \<Rightarrow> 'a list list" where
  "repeat m lo 0 s = (if lo = 0 then [s] else [])"
| "repeat m lo (Suc hi) s =
     concat (map (repeat m (lo - 1) hi) (m s)) @ (if lo = 0 then [s] else [])"

fun matchPrefix :: "regex \<Rightarrow> string \<Rightarrow> string list" where
  "matchPrefix (CharClass rs) s =
     (case s of [] \<Rightarrow> [] | c # cs \<Rightarrow> if inClass rs c then [cs] else [])"
| "matchPrefix (Seq a b) s = concat (map (matchPrefix b) (matchPrefix a s))"
| "matchPrefix (Bounded r lo hi) s = repeat (matchPrefix r) lo hi s"

definition regexTest :: "regex \<Rightarrow> string \<Rightarrow> bool" where
  "regexTest r s = ([] \<in> set (matchPrefix r s))"

text \<open>The literal \<open>/^[a-z][a-z0-9_-]{0,63}$/\<close> of \<open>resolveChannel\<close>.\<close>

definition channelPattern :: regex where
  "channelPattern =
     Seq (CharClass [(CHR ''a'', CHR ''z'')])
         (Bounded (CharClass [(CHR ''a'', CHR ''z''), (CHR ''0'', CHR ''9''),
                              (CHR ''_'', CHR ''_''), (CHR ''-'', CHR ''-'')]) 0 63)"

section \<open>Channel resolution\<close>

text \<open>
  \<open>resolveChannel\<close> is written twice in the source, in \<open>gateway/pairing-http.ts\<close> and in
  \<open>gateway/server-methods/pairing.ts\<close>, with the same text; one definition stands for both.
  The registry \<open>listPairingChannels()\<close> is the first argument; \<open>None\<close> is \<open>null\<close>.
\<close>

definition resolveChannel :: "string list \<Rightarrow> string \<Rightarrow> string option" where
  "resolveChannel channels raw =
     (let v = toLowerCase (trim raw) in
      if v \<in> set channels then Some v
      else if regexTest channelPattern v then Some v
      else None)"

text \<open>The extension pattern in the words of the specification: starts with a lower-case
  letter, at most 64 characters, only lower-case letters, digits, \<open>_\<close> and \<open>-\<close>.\<close>

definition isLowerAlpha :: "char \<Rightarrow> bool" where
  "isLowerAlpha c = (codeUnit (CHR ''a'') \<le> codeUnit c \<and> codeUnit c \<le> codeUnit (CHR ''z''))"

definition isDigit :: "char \<Rightarrow> bool" where
  "isDigit c = (codeUnit (CHR ''0'') \<le> codeUnit c \<and> codeUnit c \<le> codeUnit (CHR ''9''))"

definition spec_extension_channel :: "string \<Rightarrow> bool" where
  "spec_extension_channel v =
     (case v of
        [] \<Rightarrow> False
      | c # cs \<Rightarrow> isLowerAlpha c \<and> length v \<le> 64 \<and>
          list_all (\<lambda>d. isLowerAlpha d \<or> isDigit d \<or> d = CHR ''_'' \<or> d = CHR ''-'') cs)"

section \<open>Channel resolution on UTF-16 strings\<close>

text \<open>
  \<open>params.channel\<close> of the gateway is any JavaScript string, a sequence of 16-bit code
  units. \<open>resolveChannel\<close> is therefore also written out on such sequences, with the whole
  set of white space and line terminators that \<open>String.prototype.trim\<close> strips: TAB, LF,
  VT, FF, CR, SPACE, U+00A0, U+1680, U+2000..U+200A, U+2028, U+2029, U+202F, U+205F,
  U+3000 and U+FEFF. \<open>String.prototype.toLowerCase\<close> follows the Unicode case tables of
  the platform and is the first argument. The regular expression has no \<open>u\<close> and no \<open>i\<close>
  flag, so it compares code units with the characters of its literal. \<open>utf16\<close> embeds
  the 8-bit strings.
\<close>

type_synonym code_unit = "16 word"
type_synonym utf16 = "code_unit list"

definition utf16 :: "string \<Rightarrow> utf16" where
  "utf16 s = map (\<lambda>c. of_nat (codeUnit c)) s"

definition isWhiteSpace16 :: "code_unit \<Rightarrow> bool" where
  "isWhiteSpace16 u =
     (let n = unat u in
      n \<in> {9, 10, 11, 12, 13, 32, 160, 5760, 8232, 8233, 8239, 8287, 12288, 65279} \<or>
      (8192 \<le> n \<and> n \<le> 8202))"

text \<open>Every white space and line terminator code unit, once.\<close>

definition allWhiteSpace :: utf16 where
  "allWhiteSpace =
     [9, 10, 11, 12, 13, 32, 160, 5760, 8192, 8193, 8194, 8195, 8196, 8197, 8198, 8199, 8200,
      8201, 8202, 8232, 8233, 8239, 8287, 12288, 65279]"

definition trim16 :: "utf16 \<Rightarrow> utf16" where
  "trim16 s = rev (dropWhile isWhiteSpace16 (rev (dropWhile isWhiteSpace16 s)))"

definition inClass16 :: "(char \<times> char) list \<Rightarrow> code_unit \<Rightarrow> bool" where
  "inClass16 rs u = list_ex (\<lambda>(lo, hi). codeUnit lo \<le> unat u \<and> unat u \<le> codeUnit hi) rs"

fun matchPrefix16 :: "regex \<Rightarrow> utf16 \<Rightarrow> utf16 list" where
  "matchPrefix16 (CharClass rs) s =
     (case s of [] \<Rightarrow> [] | u # us \<Rightarrow> if inClass16 rs u then [us] else [])"
| "matchPrefix16 (Seq a b) s = concat (map (matchPrefix16 b) (matchPrefix16 a s))"
| "matchPrefix16 (Bounded r lo hi) s = repeat (matchPrefix16 r) lo hi s"

definition regexTest16 :: "regex \<Rightarrow> utf16 \<Rightarrow> bool" where
  "regexTest16 r s = ([] \<in> set (matchPrefix16 r s))"

definition resolveChannel16 :: "(utf16 \<Rightarrow> utf16) \<Rightarrow> utf16 list \<Rightarrow> utf16 \<Rightarrow> utf16 option" where
  "resolveChannel16 toLower channels raw =
     (let v = toLower (trim16 raw) in
      if v \<in> set channels then Some v
      else if regexTest16 channelPattern v then Some v
      else None)"

text \<open>The extension pattern in the words of the specification, on code units.\<close>

definition isLowerAlpha16 :: "code_unit \<Rightarrow> bool" where
  "isLowerAlpha16 u = (97 \<le> unat u \<and> unat u \<le> 122)"

definition isDigit16 :: "code_unit \<Rightarrow> bool" where
  "isDigit16 u = (48 \<le> unat u \<and> unat u \<le> 57)"

definition spec_extension_channel16 :: "utf16 \<Rightarrow> bool" where
  "spec_extension_channel16 v =
     (case v of
        [] \<Rightarrow> False
      | u # us \<Rightarrow> isLowerAlpha16 u \<and> length v \<le> 64 \<and>
          list_all (\<lambda>d. isLowerAlpha16 d \<or> isDigit16 d \<or> unat d = 95 \<or> unat d = 45) us)"

definition spec_resolve16 :: "(utf16 \<Rightarrow> utf16) \<Rightarrow> utf16 list \<Rightarrow> utf16 \<Rightarrow> utf16 option" where
  "spec_resolve16 toLower registry raw =
     (let v = toLower (trim16 raw) in
      if v \<in> set registry then Some v
      else if spec_extension_channel16 v then Some v
      else None)"

text \<open>What every \<open>toLowerCase\<close> does to a string of code units below U+0080: A..Z go to
  a..z, one by one, and the rest stays.\<close>

definition isAscii :: "code_unit \<Rightarrow> bool" where
  "isAscii u = (unat u < 128)"

definition asciiLowerCase :: "utf16 \<Rightarrow> utf16" where
  "asciiLowerCase s = map (\<lambda>u. if 65 \<le> unat u \<and> unat u \<le> 90 then u + 32 else u) s"

section \<open>JSON values\<close>

text \<open>
  The gateway's \<open>params: unknown\<close> and the parsed HTTP body are JSON values; \<open>None\<close> of
  \<^typ>\<open>'a option\<close> stands for \<open>undefined\<close>. Numbers are only ever tested for truthiness,
  so an integer stands for them. An object is the list of its own properties.
\<close>

datatype json =
    JNull
  | JBool bool
  | JNum int
  | JStr string
  | JArr "json list"
  | JObj "(string \<times> json) list"

text \<open>\<open>!x\<close> is \<open>\<not> truthy x\<close>; \<open>typeof x === "object"\<close>; the property reads \<open>p.k\<close> and
  \<open>body?.k\<close> for the keys \<open>channel\<close>, \<open>code\<close> and \<open>notify\<close>, which no prototype defines.\<close>

fun truthy :: "json option \<Rightarrow> bool" where
  "truthy None = False"
| "truthy (Some JNull) = False"
| "truthy (Some (JBool b)) = b"
| "truthy (Some (JNum n)) = (n \<noteq> 0)"
| "truthy (Some (JStr s)) = (s \<noteq> [])"
| "truthy (Some (JArr xs)) = True"
| "truthy (Some (JObj kvs)) = True"

fun typeofObject :: "json option \<Rightarrow> bool" where
  "typeofObject (Some JNull) = True"
| "typeofObject (Some (JArr xs)) = True"
| "typeofObject (Some (JObj kvs)) = True"
| "typeofObject _ = False"

fun getProp :: "json option \<Rightarrow> string \<Rightarrow> json option" where
  "getProp (Some (JObj kvs)) k = map_of kvs k"
| "getProp _ k = None"

fun typeofString :: "json option \<Rightarrow> bool" where
  "typeofString (Some (JStr s)) = True"
| "typeofString _ = False"

text \<open>The string behind a value that a \<open>typeof\<close> check has narrowed to \<open>string\<close>.\<close>

fun stringOf :: "json option \<Rightarrow> string" where
  "stringOf (Some (JStr s)) = s"
| "stringOf _ = []"

section \<open>External collaborators\<close>

text \<open>
  The store, the notifier, the configuration loader, the channel registry and the
  authorization engine are imported by both files and are not part of them. They are
  the fields of an environment. A call that throws or rejects returns \<open>Inl\<close> with
  \<open>String(err)\<close>. The notifier's call sites chain \<open>.catch\<close> on its result, so it returns
  a promise: \<open>None\<close> when it fulfils, \<open>Some err\<close> when it rejects. One run of a handler
  calls each collaborator at most once, so a function of the arguments is enough.
\<close>

datatype config = Config string

record pairing_request =
  req_id :: string
  req_code :: string

record env =
  listPairingChannels :: "string list"
  listChannelPairingRequests :: "string \<Rightarrow> string + pairing_request list"
  approveChannelPairingCode :: "string \<Rightarrow> string \<Rightarrow> string + string option"
  loadConfig :: "string + config"
  notifyPairingApproved :: "string \<Rightarrow> string \<Rightarrow> config \<Rightarrow> string option"
  authorizeGatewayConnect :: "string \<Rightarrow> string \<Rightarrow> string + bool"
  now :: nat

text \<open>
  What a handler does to the outside is the list of its calls, in order:
  \<open>StoreApprove channel code\<close>, \<open>Notify channelId id cfg\<close>, \<open>Authorize token password\<close>,
  \<open>Broadcast event channel id decision ts dropIfSlow\<close>.
\<close>

datatype event =
    StoreList string
  | StoreApprove string string
  | LoadConfig
  | Notify string string config
  | Authorize string string
  | LogInfo string
  | LogWarn string
  | Broadcast string string string string nat bool

text \<open>A handler either returns or lets an exception escape to its caller.\<close>

datatype 'a outcome = Returned 'a | Threw string

section \<open>The gateway adapter (\<open>gateway/server-methods/pairing.ts\<close>)\<close>

text \<open>\<open>ErrorCodes\<close> and \<open>errorShape\<close> come from \<open>../protocol/index.js\<close>; the handlers use
  the two codes below.\<close>

datatype ErrorCodes = INVALID_REQUEST | UNAVAILABLE

datatype error_shape = errorShape ErrorCodes string

datatype gw_payload =
    ListPayload string "pairing_request list"
  | ApprovePayload string string bool

text \<open>\<open>respond(ok, payload, error)\<close>.\<close>

datatype gw_response = Respond bool "gw_payload option" "error_shape option"

definition validateChannelPairListParams :: "json option \<Rightarrow> bool" where
  "validateChannelPairListParams params =
     (if \<not> truthy params \<or> \<not> typeofObject params then False
      else typeofString (getProp params ''channel'') \<and>
           length (trim (stringOf (getProp params ''channel''))) > 0)"

definition validateChannelPairApproveParams :: "json option \<Rightarrow> bool" where
  "validateChannelPairApproveParams params =
     (if \<not> truthy params \<or> \<not> typeofObject params then False
      else typeofString (getProp params ''channel'') \<and>
           length (trim (stringOf (getProp params ''channel''))) > 0 \<and>
           typeofString (getProp params ''code'') \<and>
           length (trim (stringOf (getProp params ''code''))) > 0)"

text \<open>\<open>!channel\<close> for the \<open>string | null\<close> that \<open>resolveChannel\<close> returns: \<open>null\<close> and the
  empty string are falsy.\<close>

fun noChannel :: "string option \<Rightarrow> bool" where
  "noChannel None = True"
| "noChannel (Some c) = (c = [])"

definition channel_pair_list :: "env \<Rightarrow> json option \<Rightarrow> event list \<times> gw_response outcome" where
  "channel_pair_list e params =
     (if \<not> validateChannelPairListParams params then
        ([], Returned (Respond False None (Some (errorShape INVALID_REQUEST
           ''invalid channel.pair.list params: channel (string) required''))))
      else
        let raw = stringOf (getProp params ''channel'');
            channel = resolveChannel (listPairingChannels e) raw in
        if noChannel channel then
          ([], Returned (Respond False None (Some (errorShape INVALID_REQUEST
             (''invalid channel: '' @ raw)))))
        else
          (case listChannelPairingRequests e (the channel) of
             Inr requests \<Rightarrow>
               ([StoreList (the channel)],
                Returned (Respond True (Some (ListPayload (the channel) requests)) None))
           | Inl err \<Rightarrow>
               ([StoreList (the channel)],
                Returned (Respond False None (Some (errorShape UNAVAILABLE err))))))"

text \<open>The part of \<open>channel.pair.approve\<close> after the store has returned a match
  (lines 118 to 141): log, broadcast, the optional notification, and the response.\<close>

definition approve_matched :: "env \<Rightarrow> json option \<Rightarrow> string \<Rightarrow> string \<Rightarrow> event list \<times> gw_response outcome" where
  "approve_matched e params channel ident =
     (let announced =
            [LogInfo (''channel pairing approved channel='' @ channel @ '' id='' @ ident),
             Broadcast ''channel.pair.resolved'' channel ident ''approved'' (now e) True];
          done = Returned (Respond True (Some (ApprovePayload channel ident True)) None) in
      if truthy (getProp params ''notify'') then
        (case loadConfig e of
           Inl err \<Rightarrow>
             (announced @ [LoadConfig],
              Returned (Respond False None (Some (errorShape UNAVAILABLE err))))
         | Inr cfg \<Rightarrow>
             (case notifyPairingApproved e channel ident cfg of
                None \<Rightarrow> (announced @ [LoadConfig, Notify channel ident cfg], done)
              | Some err \<Rightarrow>
                  (announced @ [LoadConfig, Notify channel ident cfg,
                                LogWarn (''failed to notify pairing requester: '' @ err)],
                   done)))
      else (announced, done))"

definition channel_pair_approve :: "env \<Rightarrow> json option \<Rightarrow> event list \<times> gw_response outcome" where
  "channel_pair_approve e params =
     (if \<not> validateChannelPairApproveParams params then
        ([], Returned (Respond False None (Some (errorShape INVALID_REQUEST
           ''invalid channel.pair.approve params: channel (string) and code (string) required''))))
      else
        let raw = stringOf (getProp params ''channel'');
            pcode = stringOf (getProp params ''code'');
            channel = resolveChannel (listPairingChannels e) raw in
        if noChannel channel then
          ([], Returned (Respond False None (Some (errorShape INVALID_REQUEST
             (''invalid channel: '' @ raw)))))
        else
          (case approveChannelPairingCode e (the channel) pcode of
             Inl err \<Rightarrow>
               ([StoreApprove (the channel) pcode],
                Returned (Respond False None (Some (errorShape UNAVAILABLE err))))
           | Inr None \<Rightarrow>
               ([StoreApprove (the channel) pcode],
                Returned (Respond False None (Some (errorShape INVALID_REQUEST
                  (''no pending pairing request found for code: '' @ pcode)))))
           | Inr (Some ident) \<Rightarrow>
               (let (evs, r) = approve_matched e params (the channel) ident in
                (StoreApprove (the channel) pcode # evs, r))))"

section \<open>The HTTP adapter (\<open>gateway/pairing-http.ts\<close>)\<close>

definition PAIRING_BASE_PATH :: string where
  "PAIRING_BASE_PATH = ''/api/pairing''"

text \<open>
  What the handler reads from \<open>req\<close> and \<open>opts\<close>: the pathname of the parsed URL, the
  method (\<open>req.method\<close>), the answer of \<open>isLocalDirectRequest(req, opts.trustedProxies)\<close>, the answer of
  \<open>getBearerToken(req)\<close>, and what \<open>JSON.parse\<close> makes of the body (\<open>None\<close> when it throws
  or the stream reports an error).
\<close>

record http_request =
  pathname :: string
  httpMethod :: string
  isLocalDirect :: bool
  bearerToken :: "string option"
  bodyJson :: "json option"

text \<open>The JSON bodies that \<open>sendJson\<close> writes: \<open>{ok: false, error}\<close>,
  \<open>{ok: true, channel, requests}\<close> and \<open>{ok: true, channel, id, approved}\<close>.\<close>

datatype http_body =
    ErrorBody string
  | ListBody string "pairing_request list"
  | ApproveBody string string bool

text \<open>\<open>NotHandled\<close> is \<open>return false\<close>; \<open>Sent status body\<close> is \<open>sendJson(res, status, body)\<close>
  followed by \<open>return true\<close>.\<close>

datatype http_result = NotHandled | Sent nat http_body

definition readJsonBody :: "json option \<Rightarrow> json option" where
  "readJsonBody parsed =
     (case parsed of
        None \<Rightarrow> None
      | Some j \<Rightarrow> if typeofObject (Some j) \<and> j \<noteq> JNull then Some j else None)"

text \<open>Lines 89 to 106: the request is let through, answered with 401, or the awaited
  authorization call rejects outside every \<open>try\<close> block.\<close>

datatype auth_step = AuthPassed | AuthDenied | AuthThrew string

definition authorizeRequest :: "env \<Rightarrow> http_request \<Rightarrow> event list \<times> auth_step" where
  "authorizeRequest e req =
     (if \<not> isLocalDirect req then
        (case bearerToken req of
           None \<Rightarrow> ([], AuthDenied)
         | Some token \<Rightarrow>
             if token = [] then ([], AuthDenied)
             else (case authorizeGatewayConnect e token token of
                     Inl err \<Rightarrow> ([Authorize token token], AuthThrew err)
                   | Inr ok \<Rightarrow>
                       ([Authorize token token], if \<not> ok then AuthDenied else AuthPassed)))
      else ([], AuthPassed))"

text \<open>Lines 109 to 117: the list action.\<close>

definition listAction :: "env \<Rightarrow> string \<Rightarrow> event list \<times> http_result outcome" where
  "listAction e channel =
     (case listChannelPairingRequests e channel of
        Inr requests \<Rightarrow> ([StoreList channel], Returned (Sent 200 (ListBody channel requests)))
      | Inl err \<Rightarrow> ([StoreList channel], Returned (Sent 500 (ErrorBody err))))"

text \<open>Lines 121 to 123: the code and the notify flag read from the body.\<close>

definition bodyCode :: "http_request \<Rightarrow> string" where
  "bodyCode req =
     (let body = readJsonBody (bodyJson req) in
      if typeofString (getProp body ''code'') then trim (stringOf (getProp body ''code''))
      else [])"

definition bodyNotify :: "http_request \<Rightarrow> bool" where
  "bodyNotify req = (getProp (readJsonBody (bodyJson req)) ''notify'' = Some (JBool True))"

text \<open>Lines 120 to 148: the approve action. The notifier's rejection is caught by
  \<open>.catch(() => {})\<close> and dropped.\<close>

definition approveAction :: "env \<Rightarrow> http_request \<Rightarrow> string \<Rightarrow> event list \<times> http_result outcome" where
  "approveAction e req channel =
     (let acode = bodyCode req;
          notify = bodyNotify req in
      if acode = [] then ([], Returned (Sent 400 (ErrorBody ''code is required'')))
      else
        (case approveChannelPairingCode e channel acode of
           Inl err \<Rightarrow> ([StoreApprove channel acode], Returned (Sent 500 (ErrorBody err)))
         | Inr None \<Rightarrow>
             ([StoreApprove channel acode],
              Returned (Sent 404 (ErrorBody (''No pending pairing request found for code: '' @ acode))))
         | Inr (Some ident) \<Rightarrow>
             (if notify then
                (case loadConfig e of
                   Inl err \<Rightarrow>
                     ([StoreApprove channel acode, LoadConfig],
                      Returned (Sent 500 (ErrorBody err)))
                 | Inr cfg \<Rightarrow>
                     (case notifyPairingApproved e channel ident cfg of
                        None \<Rightarrow>
                          ([StoreApprove channel acode, LoadConfig, Notify channel ident cfg],
                           Returned (Sent 200 (ApproveBody channel ident True)))
                      | Some err \<Rightarrow>
                          ([StoreApprove channel acode, LoadConfig, Notify channel ident cfg],
                           Returned (Sent 200 (ApproveBody channel ident True)))))
              else
                ([StoreApprove channel acode],
                 Returned (Sent 200 (ApproveBody channel ident True))))))"

text \<open>Lines 108 to 152: the dispatch on action and method, once the request is authorized.\<close>

definition dispatchAction :: "env \<Rightarrow> http_request \<Rightarrow> string \<Rightarrow> string \<Rightarrow> event list \<times> http_result outcome" where
  "dispatchAction e req channel action =
     (if action = ''list'' \<and> httpMethod req = ''GET'' then listAction e channel
      else if action = ''approve'' \<and> httpMethod req = ''POST'' then approveAction e req channel
      else ([], Returned (Sent 404 (ErrorBody ''Not Found''))))"

definition pathParts :: "http_request \<Rightarrow> string list" where
  "pathParts req =
     filter (\<lambda>p. p \<noteq> []) (split (CHR ''/'') (slice (pathname req) (length PAIRING_BASE_PATH)))"

definition handlePairingHttpRequest :: "env \<Rightarrow> http_request \<Rightarrow> event list \<times> http_result outcome" where
  "handlePairingHttpRequest e req =
     (if \<not> startsWith (pathname req) PAIRING_BASE_PATH then ([], Returned NotHandled)
      else
        (case pathParts req of
           [channelRaw, action] \<Rightarrow>
             (let channel = resolveChannel (listPairingChannels e) channelRaw in
              if noChannel channel then
                ([], Returned (Sent 400 (ErrorBody (''Invalid channel: '' @ channelRaw))))
              else
                (case authorizeRequest e req of
                   (evs, AuthDenied) \<Rightarrow> (evs, Returned (Sent 401 (ErrorBody ''Unauthorized'')))
                 | (evs, AuthThrew err) \<Rightarrow> (evs, Threw err)
                 | (evs, AuthPassed) \<Rightarrow>
                     (let (evs', r) = dispatchAction e req (the channel) action in
                      (evs @ evs', r))))
         | _ \<Rightarrow> ([], Returned (Sent 404 (ErrorBody ''Not Found'')))))"

text \<open>The calls that reach the pairing store or the notifier.\<close>

fun storeVisible :: "event \<Rightarrow> bool" where
  "storeVisible (StoreList c) = True"
| "storeVisible (StoreApprove c k) = True"
| "storeVisible (Notify c i g) = True"
| "storeVisible _ = False"

fun isBroadcast :: "event \<Rightarrow> bool" where
  "isBroadcast (Broadcast n c i d t s) = True"
| "isBroadcast _ = False"

fun isNotify :: "event \<Rightarrow> bool" where
  "isNotify (Notify c i g) = True"
| "isNotify _ = False"

fun isStoreApprove :: "event \<Rightarrow> bool" where
  "isStoreApprove (StoreApprove c k) = True"
| "isStoreApprove _ = False"

section \<open>Vocabulary of the properties\<close>

text \<open>A request under the prefix whose rest has exactly the two segments \<open>raw\<close> and
  \<open>action\<close>, the first of which resolves to the non-empty channel \<open>ch\<close>.\<close>

definition routed :: "env \<Rightarrow> http_request \<Rightarrow> string \<Rightarrow> string \<Rightarrow> string \<Rightarrow> bool" where
  "routed e req raw action ch =
     (startsWith (pathname req) PAIRING_BASE_PATH \<and> pathParts req = [raw, action] \<and>
      resolveChannel (listPairingChannels e) raw = Some ch \<and> ch \<noteq> [])"

text \<open>A request that is local-direct, or carries a bearer token that the authorization
  engine accepts; and a request that is neither.\<close>

definition credentialAccepted :: "env \<Rightarrow> http_request \<Rightarrow> bool" where
  "credentialAccepted e req =
     (isLocalDirect req \<or>
      (case bearerToken req of
         None \<Rightarrow> False
       | Some t \<Rightarrow> t \<noteq> [] \<and> authorizeGatewayConnect e t t = Inr True))"

definition credentialRefused :: "env \<Rightarrow> http_request \<Rightarrow> bool" where
  "credentialRefused e req =
     (\<not> isLocalDirect req \<and>
      (case bearerToken req of
         None \<Rightarrow> True
       | Some t \<Rightarrow> t = [] \<or> authorizeGatewayConnect e t t = Inr False))"

text \<open>Gateway parameters that pass validation and whose channel resolves to \<open>ch\<close>.\<close>

definition gatewayResolved :: "env \<Rightarrow> json option \<Rightarrow> string \<Rightarrow> bool" where
  "gatewayResolved e params ch =
     (resolveChannel (listPairingChannels e) (stringOf (getProp params ''channel'')) = Some ch \<and>
      ch \<noteq> [])"

section \<open>Example collaborators and requests\<close>

text \<open>A store with one pending request on \<open>sms\<close>, a notifier that always rejects, and an
  authorization engine that accepts the token \<open>secret\<close>.\<close>

definition demoEnv :: env where
  "demoEnv =
     \<lparr> listPairingChannels = [''sms'', ''telegram''],
       listChannelPairingRequests = (\<lambda>c. Inr [\<lparr> req_id = ''req_1'', req_code = ''123456'' \<rparr>]),
       approveChannelPairingCode =
         (\<lambda>c k. if c = ''sms'' \<and> k = ''123456'' then Inr (Some ''req_1'') else Inr None),
       loadConfig = Inr (Config ''default''),
       notifyPairingApproved = (\<lambda>c i g. Some ''delivery failed''),
       authorizeGatewayConnect = (\<lambda>t p. Inr (t = ''secret'' \<and> p = ''secret'')),
       now = 1700000000000 \<rparr>"

definition demoRequest :: "string \<Rightarrow> string \<Rightarrow> bool \<Rightarrow> string option \<Rightarrow> json option \<Rightarrow> http_request" where
  "demoRequest p m l t b =
     \<lparr> pathname = p, httpMethod = m, isLocalDirect = l, bearerToken = t, bodyJson = b \<rparr>"

definition demoParams :: "string \<Rightarrow> string \<Rightarrow> json option" where
  "demoParams ch k = Some (JObj [(''channel'', JStr ch), (''code'', JStr k)])"

section \<open>Strings and channel resolution\<close>

lemma codeUnit_inj: "codeUnit a = codeUnit b \<longleftrightarrow> a = b"
  unfolding codeUnit_def by simp

lemma inClass_ext: "inClass [(CHR ''a'', CHR ''z''), (CHR ''0'', CHR ''9''),
                              (CHR ''_'', CHR ''_''), (CHR ''-'', CHR ''-'')] d
   = (isLowerAlpha d \<or> isDigit d \<or> d = CHR ''_'' \<or> d = CHR ''-'')"
  unfolding inClass_def isLowerAlpha_def isDigit_def
  by (auto simp: codeUnit_inj[symmetric] simp del: codeUnit_inj)

lemma inClass_alpha: "inClass [(CHR ''a'', CHR ''z'')] d = isLowerAlpha d"
  unfolding inClass_def isLowerAlpha_def by simp

lemma repeat_class:
  assumes m: "\<And>t. m t = (case t of [] \<Rightarrow> [] | c # cs \<Rightarrow> if P c then [cs] else [])"
  shows "[] \<in> set (repeat m 0 n s) \<longleftrightarrow> length s \<le> n \<and> list_all P s"
proof (induction n arbitrary: s)
  case 0
  then show ?case by auto
next
  case (Suc n)
  show ?case
  proof (cases s)
    case Nil
    have "m [] = []" by (simp add: m)
    then show ?thesis using Nil by simp
  next
    case (Cons c cs)
    have "m (c # cs) = (if P c then [cs] else [])" by (simp add: m)
    then show ?thesis using Cons by (auto simp: Suc.IH)
  qed
qed

lemma channelPattern_spec: "regexTest channelPattern v = spec_extension_channel v"
proof (cases v)
  case Nil
  then show ?thesis by (simp add: regexTest_def channelPattern_def spec_extension_channel_def)
next
  case (Cons c cs)
  let ?rs = "[(CHR ''a'', CHR ''z''), (CHR ''0'', CHR ''9''),
                              (CHR ''_'', CHR ''_''), (CHR ''-'', CHR ''-'')]"
  have e: "(\<lambda>d. isLowerAlpha d \<or> isDigit d \<or> d = CHR ''_'' \<or> d = CHR ''-'') = inClass ?rs"
    by (rule ext) (simp only: inClass_ext)
  have r: "[] \<in> set (repeat (matchPrefix (CharClass ?rs)) 0 63 cs) \<longleftrightarrow> length cs \<le> 63 \<and> list_all (inClass ?rs) cs"
    by (rule repeat_class) simp
  have "regexTest channelPattern v = (isLowerAlpha c \<and> [] \<in> set (repeat (matchPrefix (CharClass ?rs)) 0 63 cs))"
    unfolding regexTest_def channelPattern_def Cons
    by (simp add: inClass_alpha del: matchPrefix.simps(1) repeat.simps) (simp add: inClass_alpha)
  also have "\<dots> = spec_extension_channel v"
    unfolding r spec_extension_channel_def Cons e by auto
  finally show ?thesis .
qed

lemma inClass16_ext: "inClass16 [(CHR ''a'', CHR ''z''), (CHR ''0'', CHR ''9''),
                              (CHR ''_'', CHR ''_''), (CHR ''-'', CHR ''-'')] d
   = (isLowerAlpha16 d \<or> isDigit16 d \<or> unat d = 95 \<or> unat d = 45)"
  unfolding inClass16_def isLowerAlpha16_def isDigit16_def codeUnit_def
  by auto

lemma inClass16_alpha: "inClass16 [(CHR ''a'', CHR ''z'')] d = isLowerAlpha16 d"
  unfolding inClass16_def isLowerAlpha16_def codeUnit_def by simp

lemma channelPattern_spec16: "regexTest16 channelPattern v = spec_extension_channel16 v"
proof (cases v)
  case Nil
  then show ?thesis by (simp add: regexTest16_def channelPattern_def spec_extension_channel16_def)
next
  case (Cons c cs)
  let ?rs = "[(CHR ''a'', CHR ''z''), (CHR ''0'', CHR ''9''),
                              (CHR ''_'', CHR ''_''), (CHR ''-'', CHR ''-'')]"
  have e: "(\<lambda>d. isLowerAlpha16 d \<or> isDigit16 d \<or> unat d = 95 \<or> unat d = 45) = inClass16 ?rs"
    by (rule ext) (simp only: inClass16_ext)
  have r: "[] \<in> set (repeat (matchPrefix16 (CharClass ?rs)) 0 63 cs) \<longleftrightarrow> length cs \<le> 63 \<and> list_all (inClass16 ?rs) cs"
    by (rule repeat_class) simp
  have "regexTest16 channelPattern v = (isLowerAlpha16 c \<and> [] \<in> set (repeat (matchPrefix16 (CharClass ?rs)) 0 63 cs))"
    unfolding regexTest16_def channelPattern_def Cons
    by (simp add: inClass16_alpha del: matchPrefix16.simps(1) repeat.simps) (simp add: inClass16_alpha)
  also have "\<dots> = spec_extension_channel16 v"
    unfolding r spec_extension_channel16_def Cons e by auto
  finally show ?thesis .
qed

lemma dropWhile_ws16_append:
  "list_all isWhiteSpace16 w \<Longrightarrow> dropWhile isWhiteSpace16 (w @ s) = dropWhile isWhiteSpace16 s"
  by (induction w) auto

lemma trim16_pad_left: "list_all isWhiteSpace16 w \<Longrightarrow> trim16 (w @ s) = trim16 s"
  unfolding trim16_def by (simp add: dropWhile_ws16_append)

lemma trim16_pad_right:
  assumes "list_all isWhiteSpace16 w"
  shows "trim16 (s @ w) = trim16 s"
proof (cases "dropWhile isWhiteSpace16 s = []")
  case True
  then have "list_all isWhiteSpace16 s" by (simp add: list_all_iff dropWhile_eq_Nil_conv)
  with assms have a: "list_all isWhiteSpace16 (s @ w)" by simp
  have d: "dropWhile isWhiteSpace16 (s @ w) = []"
    using a by (simp add: list_all_iff dropWhile_eq_Nil_conv)
  show ?thesis unfolding trim16_def d True ..
next
  case False
  then have "dropWhile isWhiteSpace16 (s @ w) = dropWhile isWhiteSpace16 s @ w"
    by (metis dropWhile_append1 dropWhile_eq_Nil_conv)
  moreover have "list_all isWhiteSpace16 (rev w)" using assms by (simp add: list_all_iff)
  ultimately have "dropWhile isWhiteSpace16 (rev (dropWhile isWhiteSpace16 (s @ w))) =
      dropWhile isWhiteSpace16 (rev (dropWhile isWhiteSpace16 s))"
    by (simp add: dropWhile_ws16_append)
  then show ?thesis
    by (simp only: trim16_def)
qed

lemma trim16_pad:
  "list_all isWhiteSpace16 w1 \<Longrightarrow> list_all isWhiteSpace16 w2 \<Longrightarrow> trim16 (w1 @ s @ w2) = trim16 s"
  by (simp add: trim16_pad_left trim16_pad_right)

lemma unat_shift: "65 \<le> unat (u::code_unit) \<Longrightarrow> unat u \<le> 90 \<Longrightarrow> unat (u + 32) = unat u + 32"
  by (simp add: unat_word_ariths)

lemma asciiLower_ws: "isWhiteSpace16 (if 65 \<le> unat u \<and> unat u \<le> 90 then u + 32 else u) = isWhiteSpace16 u"
  by (auto simp: isWhiteSpace16_def unat_shift Let_def)

lemma dropWhile_asciiLower:
  "dropWhile isWhiteSpace16 (asciiLowerCase s) = asciiLowerCase (dropWhile isWhiteSpace16 s)"
  unfolding asciiLowerCase_def by (induction s) (auto simp: asciiLower_ws)

lemma trim16_asciiLowerCase: "trim16 (asciiLowerCase s) = asciiLowerCase (trim16 s)"
proof -
  have r: "rev (asciiLowerCase t) = asciiLowerCase (rev t)" for t
    by (simp add: asciiLowerCase_def rev_map)
  show ?thesis
    by (simp add: trim16_def dropWhile_asciiLower r)
qed

lemma trim16_ascii: "list_all isAscii s \<Longrightarrow> list_all isAscii (trim16 s)"
  unfolding trim16_def list_all_iff
  by (metis set_dropWhileD set_rev)

lemma trim16_clean: "list_all (\<lambda>u. \<not> isWhiteSpace16 u) s \<Longrightarrow> trim16 s = s"
proof -
  assume a: "list_all (\<lambda>u. \<not> isWhiteSpace16 u) s"
  have d: "dropWhile isWhiteSpace16 t = t" if "list_all (\<lambda>u. \<not> isWhiteSpace16 u) t" for t
    using that by (cases t) auto
  have "list_all (\<lambda>u. \<not> isWhiteSpace16 u) (rev s)" using a by (simp add: list_all_iff)
  then show ?thesis using a by (simp add: trim16_def d)
qed

lemma asciiLowerCase_clean:
  "list_all (\<lambda>u. \<not> (65 \<le> unat u \<and> unat u \<le> 90)) s \<Longrightarrow> asciiLowerCase s = s"
  unfolding asciiLowerCase_def by (induction s) auto

lemma extension_chars:
  assumes "spec_extension_channel16 v"
  shows "list_all isAscii v" "list_all (\<lambda>u. \<not> isWhiteSpace16 u) v"
    "list_all (\<lambda>u. \<not> (65 \<le> unat u \<and> unat u \<le> 90)) v"
proof -
  obtain u us where v: "v = u # us" "isLowerAlpha16 u"
    "list_all (\<lambda>d. isLowerAlpha16 d \<or> isDigit16 d \<or> unat d = 95 \<or> unat d = 45) us"
    using assms by (cases v) (auto simp: spec_extension_channel16_def)
  have c: "isLowerAlpha16 d \<or> isDigit16 d \<or> unat d = 95 \<or> unat d = 45 \<Longrightarrow>
           isAscii d \<and> \<not> isWhiteSpace16 d \<and> \<not> (65 \<le> unat d \<and> unat d \<le> 90)" for d
    by (auto simp: isLowerAlpha16_def isDigit16_def isAscii_def isWhiteSpace16_def Let_def)
  have "list_all (\<lambda>d. isAscii d \<and> \<not> isWhiteSpace16 d \<and> \<not> (65 \<le> unat d \<and> unat d \<le> 90)) v"
    using v c by (auto simp: list_all_iff)
  then show "list_all isAscii v" "list_all (\<lambda>u. \<not> isWhiteSpace16 u) v"
    "list_all (\<lambda>u. \<not> (65 \<le> unat u \<and> unat u \<le> 90)) v"
    by (auto simp: list_all_iff)
qed

lemma extension_resolves:
  assumes l: "\<forall>s. list_all isAscii s \<longrightarrow> lower s = asciiLowerCase s"
    and v: "spec_extension_channel16 v"
  shows "resolveChannel16 lower reg v = Some v"
proof -
  have t: "trim16 v = v" using extension_chars(2) [OF v] by (rule trim16_clean)
  have "lower v = asciiLowerCase v" using l extension_chars(1) [OF v] by simp
  then have n: "lower (trim16 v) = v"
    using asciiLowerCase_clean [OF extension_chars(3) [OF v]] t by simp
  show ?thesis using v by (simp add: resolveChannel16_def n channelPattern_spec16)
qed

lemma ascii_case_variants:
  assumes l: "\<forall>s. list_all isAscii s \<longrightarrow> lower s = asciiLowerCase s"
    and a: "list_all isAscii a" and b: "list_all isAscii b"
    and e: "asciiLowerCase a = asciiLowerCase b"
  shows "lower (trim16 a) = lower (trim16 b)"
proof -
  have "lower (trim16 a) = asciiLowerCase (trim16 a)" using l trim16_ascii [OF a] by simp
  also have "\<dots> = trim16 (asciiLowerCase a)" by (simp add: trim16_asciiLowerCase)
  also have "\<dots> = trim16 (asciiLowerCase b)" by (simp add: e)
  also have "\<dots> = asciiLowerCase (trim16 b)" by (simp add: trim16_asciiLowerCase)
  also have "\<dots> = lower (trim16 b)" using l trim16_ascii [OF b] by simp
  finally show ?thesis .
qed

lemma utf16_examples:
  "trim16 (utf16 ''  Sms '') = utf16 ''Sms''"
  "asciiLowerCase (utf16 ''Sms'') = utf16 ''sms''"
  "list_all isAscii (utf16 ''Sms'')"
  "spec_extension_channel16 (utf16 ''sms'')"
  "trim16 (utf16 ''xyz!'') = utf16 ''xyz!''"
  "asciiLowerCase (utf16 ''xyz!'') = utf16 ''xyz!''"
  "list_all isAscii (utf16 ''xyz!'')"
  "\<not> spec_extension_channel16 (utf16 ''xyz!'')"
  by (simp_all add: utf16_def codeUnit_def trim16_def isWhiteSpace16_def asciiLowerCase_def
        isAscii_def spec_extension_channel16_def isLowerAlpha16_def isDigit16_def)

text \<open>
  Claim C4. For every string of UTF-16 code units, every registry and every platform
  \<open>toLowerCase\<close>, \<open>resolveChannel\<close> trims and lower-cases the string, accepts the result
  when it is in the registry, else accepts it exactly when it is an extension channel in
  the words of the specification, and rejects it otherwise. Surrounding white space of
  any kind does not change the result. With a \<open>toLowerCase\<close> that lower-cases A..Z, two
  strings below U+0080 that differ only in the case of letters and in surrounding white
  space resolve alike; \<open>"  Sms "\<close> and \<open>"sms"\<close> both resolve to \<open>sms\<close>, and so does \<open>Sms\<close>
  between all the white space there is; every extension channel resolves to itself; and
  \<open>xyz!\<close> is rejected unless the registry holds it. Where \<open>toLowerCase\<close> maps the Kelvin
  sign U+212A to \<open>k\<close>, the Kelvin sign resolves to \<open>k\<close>. U+200B and U+0085 are not white
  space and are not trimmed.
\<close>

theorem resolveChannel_refines_spec:
  "resolveChannel16 lower reg raw = spec_resolve16 lower reg raw \<and>
   (list_all isWhiteSpace16 w1 \<and> list_all isWhiteSpace16 w2 \<longrightarrow>
      resolveChannel16 lower reg (w1 @ a @ w2) = resolveChannel16 lower reg a) \<and>
   ((\<forall>s. list_all isAscii s \<longrightarrow> lower s = asciiLowerCase s) \<and>
    list_all isAscii a \<and> list_all isAscii b \<and> asciiLowerCase a = asciiLowerCase b \<and>
    list_all isWhiteSpace16 w1 \<and> list_all isWhiteSpace16 w2 \<and>
    list_all isWhiteSpace16 w3 \<and> list_all isWhiteSpace16 w4 \<longrightarrow>
      resolveChannel16 lower reg (w1 @ a @ w2) = resolveChannel16 lower reg (w3 @ b @ w4)) \<and>
   ((\<forall>s. list_all isAscii s \<longrightarrow> lower s = asciiLowerCase s) \<longrightarrow>
      resolveChannel16 lower reg (utf16 ''  Sms '') = Some (utf16 ''sms'') \<and>
      resolveChannel16 lower reg (utf16 ''sms'') = Some (utf16 ''sms'') \<and>
      (spec_extension_channel16 v \<longrightarrow> resolveChannel16 lower reg v = Some v) \<and>
      (utf16 ''xyz!'' \<notin> set reg \<longrightarrow> resolveChannel16 lower reg (utf16 ''xyz!'') = None) \<and>
      resolveChannel16 lower reg (allWhiteSpace @ utf16 ''Sms'' @ allWhiteSpace) = Some (utf16 ''sms'')) \<and>
   (lower [8490] = utf16 ''k'' \<longrightarrow> resolveChannel16 lower reg [8490] = Some (utf16 ''k'')) \<and>
   trim16 [8203] = [8203] \<and> trim16 [133] = [133]"
proof (intro conjI impI)
  show "resolveChannel16 lower reg raw = spec_resolve16 lower reg raw"
    by (simp add: resolveChannel16_def spec_resolve16_def channelPattern_spec16 Let_def)
next
  assume "list_all isWhiteSpace16 w1 \<and> list_all isWhiteSpace16 w2"
  then have "trim16 (w1 @ a @ w2) = trim16 a" by (simp add: trim16_pad)
  then show "resolveChannel16 lower reg (w1 @ a @ w2) = resolveChannel16 lower reg a"
    by (simp only: resolveChannel16_def)
next
  assume h: "(\<forall>s. list_all isAscii s \<longrightarrow> lower s = asciiLowerCase s) \<and>
    list_all isAscii a \<and> list_all isAscii b \<and> asciiLowerCase a = asciiLowerCase b \<and>
    list_all isWhiteSpace16 w1 \<and> list_all isWhiteSpace16 w2 \<and>
    list_all isWhiteSpace16 w3 \<and> list_all isWhiteSpace16 w4"
  then have t: "trim16 (w1 @ a @ w2) = trim16 a" "trim16 (w3 @ b @ w4) = trim16 b"
    by (simp_all add: trim16_pad)
  have "lower (trim16 a) = lower (trim16 b)"
    using h by (blast intro: ascii_case_variants)
  then show "resolveChannel16 lower reg (w1 @ a @ w2) = resolveChannel16 lower reg (w3 @ b @ w4)"
    by (simp only: resolveChannel16_def t)
next
  assume l: "\<forall>s. list_all isAscii s \<longrightarrow> lower s = asciiLowerCase s"
  have s: "resolveChannel16 lower reg (utf16 ''sms'') = Some (utf16 ''sms'')"
    using l utf16_examples(4) by (rule extension_resolves)
  have "lower (trim16 (utf16 ''  Sms '')) = utf16 ''sms''"
    using l by (simp add: utf16_examples)
  moreover have "lower (trim16 (utf16 ''sms'')) = utf16 ''sms''"
    using s by (simp add: resolveChannel16_def Let_def split: if_splits)
  ultimately have "resolveChannel16 lower reg (utf16 ''  Sms '') = resolveChannel16 lower reg (utf16 ''sms'')"
    by (simp only: resolveChannel16_def)
  with s show p: "resolveChannel16 lower reg (utf16 ''  Sms '') = Some (utf16 ''sms'')" by simp
  show "resolveChannel16 lower reg (utf16 ''sms'') = Some (utf16 ''sms'')" by (rule s)
  {
    assume "spec_extension_channel16 v"
    with l show "resolveChannel16 lower reg v = Some v" by (rule extension_resolves)
  }
  {
    assume r: "utf16 ''xyz!'' \<notin> set reg"
    have "lower (trim16 (utf16 ''xyz!'')) = utf16 ''xyz!''"
      using l by (simp add: utf16_examples)
    then show "resolveChannel16 lower reg (utf16 ''xyz!'') = None"
      using r by (simp add: resolveChannel16_def channelPattern_spec16 utf16_examples)
  }
  have w: "list_all isWhiteSpace16 allWhiteSpace"
    by (simp add: allWhiteSpace_def isWhiteSpace16_def)
  have "trim16 (allWhiteSpace @ utf16 ''Sms'' @ allWhiteSpace) = trim16 (utf16 ''  Sms '')"
    using w by (simp add: trim16_pad utf16_examples) (simp add: trim16_def isWhiteSpace16_def utf16_def codeUnit_def)
  then have "resolveChannel16 lower reg (allWhiteSpace @ utf16 ''Sms'' @ allWhiteSpace) =
             resolveChannel16 lower reg (utf16 ''  Sms '')"
    by (simp only: resolveChannel16_def)
  then show "resolveChannel16 lower reg (allWhiteSpace @ utf16 ''Sms'' @ allWhiteSpace) = Some (utf16 ''sms'')"
    using p by simp
next
  assume k: "lower [8490] = utf16 ''k''"
  have t: "trim16 [8490] = [8490]" by (simp add: trim16_def isWhiteSpace16_def)
  have "spec_extension_channel16 (utf16 ''k'')"
    by (simp add: utf16_def codeUnit_def spec_extension_channel16_def isLowerAlpha16_def)
  then show "resolveChannel16 lower reg [8490] = Some (utf16 ''k'')"
    by (simp add: resolveChannel16_def t k channelPattern_spec16 Let_def)
next
  show "trim16 [8203] = [8203]" by (simp add: trim16_def isWhiteSpace16_def)
  show "trim16 [133] = [133]" by (simp add: trim16_def isWhiteSpace16_def)
qed

text \<open>The theorem with a \<open>toLowerCase\<close> that only lower-cases A..Z, at \<open>SmS\<close> between
  U+FEFF, a space, U+3000 and a line feed, at \<open>"  Sms "\<close>, and at \<open>xyz!\<close>.\<close>

theorem resolveChannel_refines_spec_witness:
  "resolveChannel16 asciiLowerCase [utf16 ''telegram''] ([65279, 32] @ utf16 ''SmS'' @ [12288, 10]) =
     Some (utf16 ''sms'') \<and>
   resolveChannel16 asciiLowerCase [utf16 ''telegram''] (utf16 ''  Sms '') = Some (utf16 ''sms'') \<and>
   resolveChannel16 asciiLowerCase [utf16 ''telegram''] (utf16 ''xyz!'') = None"
proof -
  let ?w1 = "[65279, 32] :: utf16"
  let ?w2 = "[12288, 10] :: utf16"
  have l: "\<forall>s. list_all isAscii s \<longrightarrow> asciiLowerCase s = asciiLowerCase s" by simp
  have h: "list_all isAscii (utf16 ''SmS'') \<and> list_all isAscii (utf16 ''sms'') \<and>
      asciiLowerCase (utf16 ''SmS'') = asciiLowerCase (utf16 ''sms'') \<and>
      list_all isWhiteSpace16 ?w1 \<and> list_all isWhiteSpace16 ?w2 \<and>
      list_all isWhiteSpace16 [] \<and> list_all isWhiteSpace16 []"
    by (simp add: utf16_def codeUnit_def isAscii_def asciiLowerCase_def isWhiteSpace16_def)
  have x: "utf16 ''xyz!'' \<notin> set [utf16 ''telegram'']"
    by (simp add: utf16_def codeUnit_def)
  note t = resolveChannel_refines_spec
    [where lower = asciiLowerCase and reg = "[utf16 ''telegram'']" and a = "utf16 ''SmS''"
       and b = "utf16 ''sms''" and ?w1.0 = ?w1 and ?w2.0 = ?w2 and ?w3.0 = "[]" and ?w4.0 = "[]"]
  from t l h have 1: "resolveChannel16 asciiLowerCase [utf16 ''telegram''] (?w1 @ utf16 ''SmS'' @ ?w2) =
      resolveChannel16 asciiLowerCase [utf16 ''telegram''] ([] @ utf16 ''sms'' @ [])"
    by blast
  from t l have 2: "resolveChannel16 asciiLowerCase [utf16 ''telegram''] (utf16 ''sms'') = Some (utf16 ''sms'')"
    and 3: "resolveChannel16 asciiLowerCase [utf16 ''telegram''] (utf16 ''  Sms '') = Some (utf16 ''sms'')"
    by blast+
  from t l x have 4: "resolveChannel16 asciiLowerCase [utf16 ''telegram''] (utf16 ''xyz!'') = None"
    by blast
  from 1 2 3 4 show ?thesis by simp
qed

lemma codeUnit_small: "codeUnit c < 256"
  unfolding codeUnit_def by simp

lemma unat_codeUnit: "unat (of_nat (codeUnit c) :: code_unit) = codeUnit c"
  using codeUnit_small [of c] by (simp add: unat_of_nat)

lemma utf16_inj: "utf16 a = utf16 b \<longleftrightarrow> a = b"
proof -
  have "inj (\<lambda>c. of_nat (codeUnit c) :: code_unit)"
    by (rule injI) (metis unat_codeUnit codeUnit_inj)
  then show ?thesis unfolding utf16_def by (simp add: inj_map_eq_map)
qed

lemma isWhiteSpace16_char: "isWhiteSpace16 (of_nat (codeUnit c)) = isWhiteSpace c"
  using codeUnit_small [of c]
  by (auto simp: isWhiteSpace16_def isWhiteSpace_def unat_codeUnit Let_def)

lemma dropWhile_utf16:
  "dropWhile isWhiteSpace16 (utf16 s) = utf16 (dropWhile isWhiteSpace s)"
  unfolding utf16_def by (induction s) (auto simp: isWhiteSpace16_char)

lemma trim16_utf16: "trim16 (utf16 s) = utf16 (trim s)"
proof -
  have r: "rev (utf16 t) = utf16 (rev t)" for t by (simp add: utf16_def rev_map)
  show ?thesis by (simp add: trim16_def trim_def dropWhile_utf16 r)
qed

lemma spec_extension_utf16: "spec_extension_channel16 (utf16 v) = spec_extension_channel v"
proof (cases v)
  case Nil
  then show ?thesis by (simp add: utf16_def spec_extension_channel16_def spec_extension_channel_def)
next
  case (Cons c cs)
  have a: "isLowerAlpha16 (of_nat (codeUnit d)) = isLowerAlpha d" for d
    by (simp add: isLowerAlpha16_def isLowerAlpha_def unat_codeUnit) (simp add: codeUnit_def)
  have g: "isDigit16 (of_nat (codeUnit d)) = isDigit d" for d
    by (simp add: isDigit16_def isDigit_def unat_codeUnit) (simp add: codeUnit_def)
  have u: "(codeUnit d = 95) = (d = CHR ''_'')" "(codeUnit d = 45) = (d = CHR ''-'')" for d
    using codeUnit_inj [of d "CHR ''_''"] codeUnit_inj [of d "CHR ''-''"]
    by (simp_all add: codeUnit_def)
  show ?thesis
    unfolding Cons utf16_def spec_extension_channel16_def spec_extension_channel_def
    by (simp add: a g u unat_codeUnit list_all_iff)
qed

text \<open>The resolver on 8-bit strings is the restriction of the resolver on UTF-16 strings to the
  code units below U+0100, for a platform \<open>toLowerCase\<close> that maps such strings as
  the table \<open>lowerChar\<close> does.\<close>

lemma resolveChannel_restricts:
  assumes "\<And>s. lower (utf16 s) = utf16 (toLowerCase s)"
  shows "resolveChannel16 lower (map utf16 reg) (utf16 raw) = map_option utf16 (resolveChannel reg raw)"
proof -
  have n: "lower (trim16 (utf16 raw)) = utf16 (toLowerCase (trim raw))"
    by (simp add: trim16_utf16 assms)
  have m: "utf16 v \<in> set (map utf16 reg) \<longleftrightarrow> v \<in> set reg" for v
    by (auto simp: utf16_inj)
  show ?thesis
    unfolding resolveChannel16_def resolveChannel_def n Let_def
    by (simp add: m channelPattern_spec16 channelPattern_spec spec_extension_utf16 del: set_map)
qed

lemma resolve_sms: "resolveChannel reg ''sms'' = Some ''sms''"
proof -
  have n: "toLowerCase (trim ''sms'') = ''sms''" by code_simp
  have "spec_extension_channel ''sms''" by code_simp
  then show ?thesis by (simp add: resolveChannel_def n channelPattern_spec Let_def)
qed

lemma resolve_xyz: "resolveChannel [''sms'', ''telegram''] ''xyz!'' = None"
proof -
  have n: "toLowerCase (trim ''xyz!'') = ''xyz!''" by code_simp
  have "\<not> spec_extension_channel ''xyz!''" by code_simp
  then show ?thesis by (simp add: resolveChannel_def n channelPattern_spec Let_def)
qed

section \<open>Structure of the handlers\<close>

lemma authorizeRequest_quiet: "\<not> list_ex storeVisible (fst (authorizeRequest e req))"
  by (auto simp: authorizeRequest_def split: option.splits sum.splits)

lemma authorizeRequest_no_broadcast: "\<not> list_ex isBroadcast (fst (authorizeRequest e req))"
  by (auto simp: authorizeRequest_def split: option.splits sum.splits)

lemma authorizeRequest_accepted:
  "credentialAccepted e req \<Longrightarrow> snd (authorizeRequest e req) = AuthPassed"
  by (auto simp: authorizeRequest_def credentialAccepted_def split: option.splits sum.splits)

lemma authorizeRequest_refused:
  "credentialRefused e req \<Longrightarrow> snd (authorizeRequest e req) = AuthDenied"
  by (auto simp: authorizeRequest_def credentialRefused_def split: option.splits sum.splits)

lemma handle_routed:
  assumes "routed e req raw action ch"
  shows "handlePairingHttpRequest e req =
     (case authorizeRequest e req of
        (evs, AuthDenied) \<Rightarrow> (evs, Returned (Sent 401 (ErrorBody ''Unauthorized'')))
      | (evs, AuthThrew err) \<Rightarrow> (evs, Threw err)
      | (evs, AuthPassed) \<Rightarrow>
          (fst (authorizeRequest e req) @ fst (dispatchAction e req ch action),
           snd (dispatchAction e req ch action)))"
  using assms
  by (simp add: handlePairingHttpRequest_def routed_def Let_def split: prod.splits auth_step.splits)

lemma handle_accepted:
  assumes "routed e req raw action ch" "credentialAccepted e req"
  shows "handlePairingHttpRequest e req =
          (fst (authorizeRequest e req) @ fst (dispatchAction e req ch action),
           snd (dispatchAction e req ch action))"
  using authorizeRequest_accepted[OF assms(2)]
  by (cases "authorizeRequest e req") (simp add: handle_routed[OF assms(1)])

lemma handle_refused:
  assumes "routed e req raw action ch" "credentialRefused e req"
  shows "handlePairingHttpRequest e req =
          (fst (authorizeRequest e req), Returned (Sent 401 (ErrorBody ''Unauthorized'')))"
  using authorizeRequest_refused[OF assms(2)]
  by (cases "authorizeRequest e req") (simp add: handle_routed[OF assms(1)])

lemma handle_bad_channel:
  assumes "startsWith (pathname req) PAIRING_BASE_PATH" "pathParts req = [raw, action]"
    "noChannel (resolveChannel (listPairingChannels e) raw)"
  shows "handlePairingHttpRequest e req = ([], Returned (Sent 400 (ErrorBody (''Invalid channel: '' @ raw))))"
  using assms by (simp add: handlePairingHttpRequest_def Let_def)

lemma handle_bad_shape:
  assumes "startsWith (pathname req) PAIRING_BASE_PATH" "length (pathParts req) \<noteq> 2"
  shows "handlePairingHttpRequest e req = ([], Returned (Sent 404 (ErrorBody ''Not Found'')))"
proof -
  have "\<And>a b. pathParts req \<noteq> [a, b]" using assms(2) by auto
  then show ?thesis using assms(1)
    by (simp add: handlePairingHttpRequest_def split: list.splits)
qed

lemma approveAction_no_code:
  "bodyCode req = [] \<Longrightarrow> approveAction e req ch = ([], Returned (Sent 400 (ErrorBody ''code is required'')))"
  by (simp add: approveAction_def)

lemma approveAction_no_match:
  "bodyCode req \<noteq> [] \<Longrightarrow> approveChannelPairingCode e ch (bodyCode req) = Inr None \<Longrightarrow>
   approveAction e req ch = ([StoreApprove ch (bodyCode req)],
     Returned (Sent 404 (ErrorBody (''No pending pairing request found for code: '' @ bodyCode req))))"
  by (simp add: approveAction_def Let_def)

lemma gateway_approve_valid:
  assumes "validateChannelPairApproveParams params" "gatewayResolved e params ch"
  shows "channel_pair_approve e params =
     (case approveChannelPairingCode e ch (stringOf (getProp params ''code'')) of
        Inl err \<Rightarrow>
          ([StoreApprove ch (stringOf (getProp params ''code''))],
           Returned (Respond False None (Some (errorShape UNAVAILABLE err))))
      | Inr None \<Rightarrow>
          ([StoreApprove ch (stringOf (getProp params ''code''))],
           Returned (Respond False None (Some (errorShape INVALID_REQUEST
             (''no pending pairing request found for code: '' @ stringOf (getProp params ''code''))))))
      | Inr (Some ident) \<Rightarrow>
          (StoreApprove ch (stringOf (getProp params ''code'')) # fst (approve_matched e params ch ident),
           snd (approve_matched e params ch ident)))"
  using assms
  by (simp add: channel_pair_approve_def gatewayResolved_def Let_def split: sum.splits option.splits prod.splits)

section \<open>The examples evaluated\<close>

lemma demo_pathParts:
  "pathParts (demoRequest ''/api/pairing/sms/approve'' m l t b) = [''sms'', ''approve'']"
  "pathParts (demoRequest ''/api/pairing/sms/list'' m l t b) = [''sms'', ''list'']"
  "pathParts (demoRequest ''/api/pairing/xyz!/approve'' m l t b) = [''xyz!'', ''approve'']"
  "pathParts (demoRequest ''/api/pairing/xyz!/status'' m l t b) = [''xyz!'', ''status'']"
  "pathParts (demoRequest ''/api/pairingsms/list'' m l t b) = [''sms'', ''list'']"
  by (simp_all add: pathParts_def demoRequest_def slice_def PAIRING_BASE_PATH_def)

lemma demo_startsWith:
  "startsWith (pathname (demoRequest ''/api/pairing/sms/approve'' m l t b)) PAIRING_BASE_PATH"
  "startsWith (pathname (demoRequest ''/api/pairing/sms/list'' m l t b)) PAIRING_BASE_PATH"
  "startsWith (pathname (demoRequest ''/api/pairing/xyz!/approve'' m l t b)) PAIRING_BASE_PATH"
  "startsWith (pathname (demoRequest ''/api/pairing/xyz!/status'' m l t b)) PAIRING_BASE_PATH"
  "startsWith (pathname (demoRequest ''/api/pairingsms/list'' m l t b)) PAIRING_BASE_PATH"
  by (simp_all add: startsWith_def demoRequest_def PAIRING_BASE_PATH_def)

lemma demo_routed:
  "routed e (demoRequest ''/api/pairing/sms/approve'' m l t b) ''sms'' ''approve'' ''sms''"
  "routed e (demoRequest ''/api/pairing/sms/list'' m l t b) ''sms'' ''list'' ''sms''"
  by (simp_all add: routed_def demo_pathParts demo_startsWith resolve_sms)

lemma demo_fields:
  "httpMethod (demoRequest p m l t b) = m"
  "isLocalDirect (demoRequest p m l t b) = l"
  "bearerToken (demoRequest p m l t b) = t"
  "bodyJson (demoRequest p m l t b) = b"
  "pathname (demoRequest p m l t b) = p"
  by (simp_all add: demoRequest_def)

lemma demo_local: "credentialAccepted e (demoRequest p m True t b)"
  by (simp add: credentialAccepted_def demo_fields)

lemma demo_anonymous: "credentialRefused e (demoRequest p m False None b)"
  by (simp add: credentialRefused_def demo_fields)

lemma trim_digits:
  "trim ''123456'' = ''123456''"
  "trim ''000000'' = ''000000''"
  "trim '' 123456 '' = ''123456''"
  "trim ''sms'' = ''sms''"
  by code_simp+

lemma demo_bodyCode:
  "bodyCode (demoRequest p m l t (Some (JObj ((''code'', JStr k) # kvs)))) = trim k"
  by (simp add: bodyCode_def demo_fields readJsonBody_def)

lemma demo_validate:
  "validateChannelPairApproveParams (Some (JObj ((''channel'', JStr ''sms'') # (''code'', JStr k) # kvs))) = (trim k \<noteq> [])"
  by (simp add: validateChannelPairApproveParams_def trim_digits)

lemma demo_gatewayResolved:
  "gatewayResolved e (Some (JObj ((''channel'', JStr ''sms'') # kvs))) ''sms''"
  by (simp add: gatewayResolved_def resolve_sms)

lemma demo_store:
  "approveChannelPairingCode demoEnv c k = (if c = ''sms'' \<and> k = ''123456'' then Inr (Some ''req_1'') else Inr None)"
  "loadConfig demoEnv = Inr (Config ''default'')"
  "notifyPairingApproved demoEnv c i g = Some ''delivery failed''"
  "authorizeGatewayConnect demoEnv t p = Inr (t = ''secret'' \<and> p = ''secret'')"
  "listPairingChannels demoEnv = [''sms'', ''telegram'']"
  "listChannelPairingRequests demoEnv c = Inr [\<lparr> req_id = ''req_1'', req_code = ''123456'' \<rparr>]"
  "now demoEnv = 1700000000000"
  by (simp_all add: demoEnv_def)

section \<open>Approve when the store finds no match\<close>

text \<open>
  Claim C1, as the code has it. A well-formed Approve whose channel resolves and for which
  the store returns no match is answered, on the HTTP adapter (for a request whose
  credential is accepted), with status 404 and the message
  \<open>No pending pairing request found for code: ...\<close>; on the gateway adapter it is answered
  with the error code \<open>INVALID_REQUEST\<close>, the same code as a validation error, and the
  message \<open>no pending pairing request found for code: ...\<close>, which differs from both
  validation messages.
\<close>

theorem approve_no_match_reported:
  "(routed e req raw ''approve'' ch \<and> httpMethod req = ''POST'' \<and> credentialAccepted e req \<and>
    bodyCode req \<noteq> [] \<and> approveChannelPairingCode e ch (bodyCode req) = Inr None \<longrightarrow>
      snd (handlePairingHttpRequest e req) =
        Returned (Sent 404 (ErrorBody (''No pending pairing request found for code: '' @ bodyCode req)))) \<and>
   (validateChannelPairApproveParams params \<and> gatewayResolved e params ch \<and>
    approveChannelPairingCode e ch (stringOf (getProp params ''code'')) = Inr None \<longrightarrow>
      snd (channel_pair_approve e params) =
        Returned (Respond False None (Some (errorShape INVALID_REQUEST
          (''no pending pairing request found for code: '' @ stringOf (getProp params ''code'')))))) \<and>
   ''no pending pairing request found for code: '' @ k \<noteq> ''invalid channel: '' @ r \<and>
   ''no pending pairing request found for code: '' @ k \<noteq>
     ''invalid channel.pair.approve params: channel (string) and code (string) required''"
proof (intro conjI impI)
  assume h: "routed e req raw ''approve'' ch \<and> httpMethod req = ''POST'' \<and> credentialAccepted e req \<and>
    bodyCode req \<noteq> [] \<and> approveChannelPairingCode e ch (bodyCode req) = Inr None"
  then have "handlePairingHttpRequest e req =
          (fst (authorizeRequest e req) @ fst (dispatchAction e req ch ''approve''),
           snd (dispatchAction e req ch ''approve''))"
    by (blast intro: handle_accepted)
  moreover have "dispatchAction e req ch ''approve'' = approveAction e req ch"
    using h by (simp add: dispatchAction_def)
  ultimately show "snd (handlePairingHttpRequest e req) =
        Returned (Sent 404 (ErrorBody (''No pending pairing request found for code: '' @ bodyCode req)))"
    using h by (simp add: approveAction_no_match)
next
  assume h: "validateChannelPairApproveParams params \<and> gatewayResolved e params ch \<and>
    approveChannelPairingCode e ch (stringOf (getProp params ''code'')) = Inr None"
  then show "snd (channel_pair_approve e params) =
        Returned (Respond False None (Some (errorShape INVALID_REQUEST
          (''no pending pairing request found for code: '' @ stringOf (getProp params ''code'')))))"
    using gateway_approve_valid [of params e ch] by simp
qed simp_all

text \<open>The theorem at a code that the example store does not hold.\<close>

theorem approve_no_match_reported_witness:
  "snd (handlePairingHttpRequest demoEnv
          (demoRequest ''/api/pairing/sms/approve'' ''POST'' True None
             (Some (JObj [(''code'', JStr ''000000'')])))) =
     Returned (Sent 404 (ErrorBody ''No pending pairing request found for code: 000000'')) \<and>
   snd (channel_pair_approve demoEnv (demoParams ''sms'' ''000000'')) =
     Returned (Respond False None (Some (errorShape INVALID_REQUEST
       ''no pending pairing request found for code: 000000'')))"
  using approve_no_match_reported
    [of demoEnv "demoRequest ''/api/pairing/sms/approve'' ''POST'' True None
             (Some (JObj [(''code'', JStr ''000000'')]))" "''sms''" "''sms''"
        "demoParams ''sms'' ''000000''"]
  by (simp add: demo_routed demo_local demo_fields demo_bodyCode trim_digits demo_store
      demoParams_def demo_validate demo_gatewayResolved)

text \<open>The gateway adapter answers \<open>{channel: "sms", code: "000000"}\<close>, valid input without a
  pending request, with the invalid-request code.\<close>

theorem gateway_no_match_is_invalid_request:
  "validateChannelPairApproveParams (demoParams ''sms'' ''000000'') \<and>
   resolveChannel (listPairingChannels demoEnv) ''sms'' = Some ''sms'' \<and>
   approveChannelPairingCode demoEnv ''sms'' ''000000'' = Inr None \<and>
   channel_pair_approve demoEnv (demoParams ''sms'' ''000000'') =
     ([StoreApprove ''sms'' ''000000''],
      Returned (Respond False None (Some (errorShape INVALID_REQUEST
        ''no pending pairing request found for code: 000000''))))"
  by (simp add: demoParams_def demo_validate trim_digits resolve_sms demo_store
      gateway_approve_valid[OF _ demo_gatewayResolved])

section \<open>The path prefix\<close>

lemma handled_under_prefix:
  assumes "startsWith (pathname req) PAIRING_BASE_PATH"
  shows "snd (handlePairingHttpRequest e req) \<noteq> Returned NotHandled"
proof (cases "length (pathParts req) = 2")
  case False
  then show ?thesis using assms by (simp add: handle_bad_shape)
next
  case True
  then obtain raw action where p: "pathParts req = [raw, action]"
    by (cases "pathParts req"; cases "tl (pathParts req)") auto
  show ?thesis
  proof (cases "noChannel (resolveChannel (listPairingChannels e) raw)")
    case True
    then show ?thesis using assms p by (simp add: handle_bad_channel)
  next
    case False
    then obtain ch where "resolveChannel (listPairingChannels e) raw = Some ch" "ch \<noteq> []"
      by (cases "resolveChannel (listPairingChannels e) raw") auto
    then have r: "routed e req raw action ch" using assms p by (simp add: routed_def)
    show ?thesis
      by (cases "authorizeRequest e req")
         (auto simp: handle_routed[OF r] dispatchAction_def listAction_def approveAction_def Let_def
               split: auth_step.splits sum.splits option.splits)
  qed
qed

lemma split_without_separator: "sep \<notin> set s \<Longrightarrow> split sep s = [s]"
  by (induction s) auto

lemma split_at_separator: "sep \<notin> set c \<Longrightarrow> split sep (c @ sep # r) = c # split sep r"
  by (induction c) auto

lemma pathParts_two_segments:
  assumes "CHR ''/'' \<notin> set c" "CHR ''/'' \<notin> set a" "c \<noteq> []" "a \<noteq> []"
  shows "pathname req = PAIRING_BASE_PATH @ c @ ''/'' @ a \<Longrightarrow> pathParts req = [c, a]"
    and "pathname req = PAIRING_BASE_PATH @ ''/'' @ c @ ''/'' @ a \<Longrightarrow> pathParts req = [c, a]"
proof -
  have s: "split (CHR ''/'') (c @ CHR ''/'' # a) = [c, a]"
    using assms by (simp add: split_at_separator split_without_separator)
  show "pathname req = PAIRING_BASE_PATH @ c @ ''/'' @ a \<Longrightarrow> pathParts req = [c, a]"
    using assms s by (simp add: pathParts_def slice_def)
  show "pathname req = PAIRING_BASE_PATH @ ''/'' @ c @ ''/'' @ a \<Longrightarrow> pathParts req = [c, a]"
    using assms s by (simp add: pathParts_def slice_def)
qed

lemma startsWith_prefix: "startsWith (p @ r) p"
  by (simp add: startsWith_def)

lemma handle_same_segments:
  assumes "startsWith (pathname r1) PAIRING_BASE_PATH" "startsWith (pathname r2) PAIRING_BASE_PATH"
    "pathParts r1 = pathParts r2" "httpMethod r1 = httpMethod r2"
    "isLocalDirect r1 = isLocalDirect r2" "bearerToken r1 = bearerToken r2" "bodyJson r1 = bodyJson r2"
  shows "handlePairingHttpRequest e r1 = handlePairingHttpRequest e r2"
proof -
  have a: "authorizeRequest e r1 = authorizeRequest e r2"
    using assms by (simp add: authorizeRequest_def)
  have d: "dispatchAction e r1 ch action = dispatchAction e r2 ch action" for ch action
    using assms by (simp add: dispatchAction_def approveAction_def bodyCode_def bodyNotify_def)
  show ?thesis
    unfolding handlePairingHttpRequest_def a d assms(3) using assms(1,2) by simp
qed

text \<open>
  Claim C10. The HTTP adapter handles every request whose pathname starts with the
  literal \<open>/api/pairing\<close>, with or without a following \<open>/\<close>: it never returns \<open>false\<close>
  for one. The text after the literal prefix is split at \<open>/\<close>: for every channel text
  \<open>c\<close> and action text \<open>a\<close>, not empty and without \<open>/\<close>, the pathname of the prefix followed
  at once by \<open>c/a\<close> has the segments \<open>c\<close> and \<open>a\<close>, and the request is answered exactly as
  the request for the prefix, \<open>/\<close> and \<open>c/a\<close> is. So \<open>/api/pairingsms/list\<close> has the
  segments \<open>sms\<close> and \<open>list\<close>, and a local \<open>GET\<close> of it runs the list action on channel
  \<open>sms\<close> and calls the store for that channel.
\<close>

theorem bare_prefix_is_handled:
  "(startsWith (pathname req) PAIRING_BASE_PATH \<longrightarrow>
      snd (handlePairingHttpRequest e req) \<noteq> Returned NotHandled) \<and>
   (pathname req = PAIRING_BASE_PATH @ c @ ''/'' @ a \<and> c \<noteq> [] \<and> a \<noteq> [] \<and>
    CHR ''/'' \<notin> set c \<and> CHR ''/'' \<notin> set a \<longrightarrow>
      startsWith (pathname req) PAIRING_BASE_PATH \<and> pathParts req = [c, a] \<and>
      pathParts (req \<lparr> pathname := PAIRING_BASE_PATH @ ''/'' @ c @ ''/'' @ a \<rparr>) = [c, a] \<and>
      handlePairingHttpRequest e req =
        handlePairingHttpRequest e (req \<lparr> pathname := PAIRING_BASE_PATH @ ''/'' @ c @ ''/'' @ a \<rparr>)) \<and>
   (pathname req = ''/api/pairingsms/list'' \<longrightarrow>
      startsWith (pathname req) PAIRING_BASE_PATH \<and> pathParts req = [''sms'', ''list'']) \<and>
   (pathname req = ''/api/pairingsms/list'' \<and> httpMethod req = ''GET'' \<and> isLocalDirect req \<longrightarrow>
      handlePairingHttpRequest e req = listAction e ''sms'' \<and>
      fst (handlePairingHttpRequest e req) = [StoreList ''sms''])"
proof (intro conjI impI)
  assume "startsWith (pathname req) PAIRING_BASE_PATH"
  then show "snd (handlePairingHttpRequest e req) \<noteq> Returned NotHandled"
    by (rule handled_under_prefix)
next
  assume h: "pathname req = PAIRING_BASE_PATH @ c @ ''/'' @ a \<and> c \<noteq> [] \<and> a \<noteq> [] \<and>
    CHR ''/'' \<notin> set c \<and> CHR ''/'' \<notin> set a"
  let ?r = "req \<lparr> pathname := PAIRING_BASE_PATH @ ''/'' @ c @ ''/'' @ a \<rparr>"
  show s1: "startsWith (pathname req) PAIRING_BASE_PATH"
    using h by (simp add: startsWith_prefix)
  show p1: "pathParts req = [c, a]"
    using h by (simp add: pathParts_two_segments(1))
  have s2: "startsWith (pathname ?r) PAIRING_BASE_PATH"
    by (simp add: startsWith_prefix)
  show p2: "pathParts ?r = [c, a]"
    using h by (simp add: pathParts_two_segments(2))
  show "handlePairingHttpRequest e req = handlePairingHttpRequest e ?r"
  proof (rule handle_same_segments [OF s1 s2])
    show "pathParts req = pathParts ?r" by (simp only: p1 p2)
  qed simp_all
next
  assume h: "pathname req = ''/api/pairingsms/list''"
  show "startsWith (pathname req) PAIRING_BASE_PATH"
    by (simp add: h startsWith_def PAIRING_BASE_PATH_def)
  show "pathParts req = [''sms'', ''list'']"
    by (simp add: h pathParts_def slice_def PAIRING_BASE_PATH_def)
next
  assume h: "pathname req = ''/api/pairingsms/list'' \<and> httpMethod req = ''GET'' \<and> isLocalDirect req"
  have r: "routed e req ''sms'' ''list'' ''sms''"
    using h by (simp add: routed_def startsWith_def pathParts_def slice_def PAIRING_BASE_PATH_def resolve_sms)
  have a: "credentialAccepted e req" using h by (simp add: credentialAccepted_def)
  have n: "authorizeRequest e req = ([], AuthPassed)" using h by (simp add: authorizeRequest_def)
  have d: "dispatchAction e req ''sms'' ''list'' = listAction e ''sms''"
    using h by (simp add: dispatchAction_def)
  show g: "handlePairingHttpRequest e req = listAction e ''sms''"
    by (simp add: handle_accepted[OF r a] n d)
  show "fst (handlePairingHttpRequest e req) = [StoreList ''sms'']"
    unfolding g by (simp add: listAction_def split: sum.splits)
qed

text \<open>The theorem at a local \<open>GET /api/pairingsms/list\<close> and at a local
  \<open>POST /api/pairingtelegram/approve\<close> against the example store.\<close>

theorem bare_prefix_is_handled_witness:
  "handlePairingHttpRequest demoEnv (demoRequest ''/api/pairingsms/list'' ''GET'' True None None) =
     ([StoreList ''sms''],
      Returned (Sent 200 (ListBody ''sms'' [\<lparr> req_id = ''req_1'', req_code = ''123456'' \<rparr>]))) \<and>
   pathParts (demoRequest ''/api/pairingtelegram/approve'' ''POST'' True None None) =
     [''telegram'', ''approve''] \<and>
   handlePairingHttpRequest demoEnv (demoRequest ''/api/pairingtelegram/approve'' ''POST'' True None None) =
   handlePairingHttpRequest demoEnv (demoRequest ''/api/pairing/telegram/approve'' ''POST'' True None None)"
proof -
  let ?a = "demoRequest ''/api/pairingsms/list'' ''GET'' True None None"
  let ?b = "demoRequest ''/api/pairingtelegram/approve'' ''POST'' True None None"
  have u: "?b \<lparr> pathname := PAIRING_BASE_PATH @ ''/'' @ ''telegram'' @ ''/'' @ ''approve'' \<rparr> =
           demoRequest ''/api/pairing/telegram/approve'' ''POST'' True None None"
    by (simp add: demoRequest_def PAIRING_BASE_PATH_def)
  have h: "pathname ?b = PAIRING_BASE_PATH @ ''telegram'' @ ''/'' @ ''approve'' \<and>
           ''telegram'' \<noteq> [] \<and> ''approve'' \<noteq> [] \<and>
           CHR ''/'' \<notin> set ''telegram'' \<and> CHR ''/'' \<notin> set ''approve''"
    by (simp add: demoRequest_def PAIRING_BASE_PATH_def)
  from bare_prefix_is_handled [where req = ?a and e = demoEnv]
  have 1: "handlePairingHttpRequest demoEnv ?a =
     ([StoreList ''sms''],
      Returned (Sent 200 (ListBody ''sms'' [\<lparr> req_id = ''req_1'', req_code = ''123456'' \<rparr>])))"
    by (simp add: demo_fields listAction_def demo_store)
  from bare_prefix_is_handled [where req = ?b and e = demoEnv and c = "''telegram''" and a = "''approve''"] h
  have 2: "pathParts ?b = [''telegram'', ''approve''] \<and>
      handlePairingHttpRequest demoEnv ?b =
        handlePairingHttpRequest demoEnv
          (?b \<lparr> pathname := PAIRING_BASE_PATH @ ''/'' @ ''telegram'' @ ''/'' @ ''approve'' \<rparr>)"
    by blast
  from 1 2 show ?thesis by (simp only: u)
qed

section \<open>Authorization on the HTTP adapter\<close>

text \<open>
  Claim C3, as the code has it. The path shape and the channel are checked before the
  credential. A request under the prefix with two segments and a resolvable channel that
  is neither local-direct nor carries an accepted bearer token is answered 401, and no
  call reaches the store or the notifier. With a channel that does not resolve the answer
  is 400 \<open>Invalid channel\<close>, and with another number of segments 404, whatever the
  credential.
\<close>

theorem unauthorized_after_channel_check:
  "(routed e req raw action ch \<and> credentialRefused e req \<longrightarrow>
      snd (handlePairingHttpRequest e req) = Returned (Sent 401 (ErrorBody ''Unauthorized'')) \<and>
      \<not> list_ex storeVisible (fst (handlePairingHttpRequest e req))) \<and>
   (startsWith (pathname req) PAIRING_BASE_PATH \<and> pathParts req = [raw, action] \<and>
    noChannel (resolveChannel (listPairingChannels e) raw) \<longrightarrow>
      handlePairingHttpRequest e req =
        ([], Returned (Sent 400 (ErrorBody (''Invalid channel: '' @ raw))))) \<and>
   (startsWith (pathname req) PAIRING_BASE_PATH \<and> length (pathParts req) \<noteq> 2 \<longrightarrow>
      handlePairingHttpRequest e req = ([], Returned (Sent 404 (ErrorBody ''Not Found''))))"
proof (intro conjI impI)
  assume h: "routed e req raw action ch \<and> credentialRefused e req"
  then have g: "handlePairingHttpRequest e req =
          (fst (authorizeRequest e req), Returned (Sent 401 (ErrorBody ''Unauthorized'')))"
    by (blast intro: handle_refused)
  show "snd (handlePairingHttpRequest e req) = Returned (Sent 401 (ErrorBody ''Unauthorized''))"
    by (simp add: g)
  show "\<not> list_ex storeVisible (fst (handlePairingHttpRequest e req))"
    by (simp add: g authorizeRequest_quiet)
qed (simp_all add: handle_bad_channel handle_bad_shape)

text \<open>The theorem at a request without a token, at one whose channel does not resolve,
  and at the bare prefix.\<close>

theorem unauthorized_after_channel_check_witness:
  "handlePairingHttpRequest demoEnv
     (demoRequest ''/api/pairing/sms/approve'' ''POST'' False None None) =
     ([], Returned (Sent 401 (ErrorBody ''Unauthorized''))) \<and>
   handlePairingHttpRequest demoEnv
     (demoRequest ''/api/pairing/xyz!/approve'' ''POST'' True None None) =
     ([], Returned (Sent 400 (ErrorBody ''Invalid channel: xyz!''))) \<and>
   handlePairingHttpRequest demoEnv
     (demoRequest ''/api/pairing'' ''GET'' True None None) =
     ([], Returned (Sent 404 (ErrorBody ''Not Found'')))"
proof -
  let ?a = "demoRequest ''/api/pairing/sms/approve'' ''POST'' False None None"
  let ?b = "demoRequest ''/api/pairing/xyz!/approve'' ''POST'' True None None"
  let ?c = "demoRequest ''/api/pairing'' ''GET'' True None None"
  have a: "routed demoEnv ?a ''sms'' ''approve'' ''sms'' \<and> credentialRefused demoEnv ?a"
    by (simp add: demo_routed demo_anonymous)
  have t: "fst (handlePairingHttpRequest demoEnv ?a) = []"
    by (simp add: handle_refused[OF demo_routed(1) demo_anonymous] authorizeRequest_def demo_fields)
  have b: "startsWith (pathname ?b) PAIRING_BASE_PATH \<and> pathParts ?b = [''xyz!'', ''approve''] \<and>
           noChannel (resolveChannel (listPairingChannels demoEnv) ''xyz!'')"
    by (simp add: demo_startsWith demo_pathParts demo_store resolve_xyz)
  have c: "startsWith (pathname ?c) PAIRING_BASE_PATH \<and> length (pathParts ?c) \<noteq> 2"
    by (simp add: startsWith_def pathParts_def slice_def demoRequest_def PAIRING_BASE_PATH_def)
  from unauthorized_after_channel_check [of demoEnv ?a "''sms''" "''approve''" "''sms''"] a t
  have 1: "handlePairingHttpRequest demoEnv ?a = ([], Returned (Sent 401 (ErrorBody ''Unauthorized'')))"
    by (simp add: prod_eq_iff)
  from unauthorized_after_channel_check [of demoEnv ?b "''xyz!''" "''approve''"] b
  have 2: "handlePairingHttpRequest demoEnv ?b = ([], Returned (Sent 400 (ErrorBody ''Invalid channel: xyz!'')))"
    by simp
  from unauthorized_after_channel_check [of demoEnv ?c] c
  have 3: "handlePairingHttpRequest demoEnv ?c = ([], Returned (Sent 404 (ErrorBody ''Not Found'')))"
    by simp
  from 1 2 3 show ?thesis by simp
qed

text \<open>A request that is not local and carries no token, with the channel \<open>xyz!\<close>, is
  answered 400 and not 401.\<close>

theorem invalid_channel_precedes_unauthorized:
  "credentialRefused demoEnv (demoRequest ''/api/pairing/xyz!/approve'' ''POST'' False None None) \<and>
   handlePairingHttpRequest demoEnv
     (demoRequest ''/api/pairing/xyz!/approve'' ''POST'' False None None) =
     ([], Returned (Sent 400 (ErrorBody ''Invalid channel: xyz!'')))"
  by (simp add: demo_anonymous handle_bad_channel demo_startsWith demo_pathParts demo_store resolve_xyz)

section \<open>Routing on the HTTP adapter\<close>

lemma bodyCode_unreadable:
  assumes "bodyJson req = None \<or> \<not> typeofObject (bodyJson req) \<or> bodyJson req = Some JNull \<or>
           getProp (bodyJson req) ''code'' = None"
  shows "bodyCode req = []"
proof (cases "readJsonBody (bodyJson req)")
  case None
  then show ?thesis by (simp add: bodyCode_def)
next
  case (Some j)
  then have "bodyJson req = Some j" "typeofObject (Some j)" "j \<noteq> JNull"
    by (auto simp: readJsonBody_def split: option.splits if_splits)
  with assms have "getProp (Some j) ''code'' = None" by auto
  then show ?thesis using Some by (simp add: bodyCode_def)
qed

text \<open>
  Claim C9, as the code has it. A request under the prefix whose rest does not have
  exactly two non-empty segments is answered 404. For a request with two segments, a
  resolvable channel and an accepted credential: any pair of action and method other than
  \<open>list\<close> with \<open>GET\<close> and \<open>approve\<close> with \<open>POST\<close> is answered 404 without a call to the
  store; \<open>GET .../list\<close> runs the list action and calls the store's list operation for the
  channel; \<open>POST .../approve\<close> runs the approve action, and a body that does not parse, is
  not an object, or has no \<open>code\<close> is answered 400 \<open>code is required\<close> without a call to
  the store.
\<close>

theorem http_routing:
  "(startsWith (pathname req) PAIRING_BASE_PATH \<and> length (pathParts req) \<noteq> 2 \<longrightarrow>
      handlePairingHttpRequest e req = ([], Returned (Sent 404 (ErrorBody ''Not Found'')))) \<and>
   (routed e req raw action ch \<and> credentialAccepted e req \<and>
    \<not> (action = ''list'' \<and> httpMethod req = ''GET'') \<and>
    \<not> (action = ''approve'' \<and> httpMethod req = ''POST'') \<longrightarrow>
      snd (handlePairingHttpRequest e req) = Returned (Sent 404 (ErrorBody ''Not Found'')) \<and>
      \<not> list_ex storeVisible (fst (handlePairingHttpRequest e req))) \<and>
   (routed e req raw action ch \<and> credentialAccepted e req \<and>
    action = ''list'' \<and> httpMethod req = ''GET'' \<longrightarrow>
      handlePairingHttpRequest e req =
        (fst (authorizeRequest e req) @ fst (listAction e ch), snd (listAction e ch)) \<and>
      filter storeVisible (fst (handlePairingHttpRequest e req)) = [StoreList ch]) \<and>
   (routed e req raw action ch \<and> credentialAccepted e req \<and>
    action = ''approve'' \<and> httpMethod req = ''POST'' \<longrightarrow>
      handlePairingHttpRequest e req =
        (fst (authorizeRequest e req) @ fst (approveAction e req ch), snd (approveAction e req ch))) \<and>
   (routed e req raw action ch \<and> credentialAccepted e req \<and>
    action = ''approve'' \<and> httpMethod req = ''POST'' \<and>
    (bodyJson req = None \<or> \<not> typeofObject (bodyJson req) \<or> bodyJson req = Some JNull \<or>
     getProp (bodyJson req) ''code'' = None) \<longrightarrow>
      snd (handlePairingHttpRequest e req) = Returned (Sent 400 (ErrorBody ''code is required'')) \<and>
      \<not> list_ex storeVisible (fst (handlePairingHttpRequest e req)))"
proof (intro conjI impI)
  assume "startsWith (pathname req) PAIRING_BASE_PATH \<and> length (pathParts req) \<noteq> 2"
  then show "handlePairingHttpRequest e req = ([], Returned (Sent 404 (ErrorBody ''Not Found'')))"
    by (simp add: handle_bad_shape)
next
  assume h: "routed e req raw action ch \<and> credentialAccepted e req \<and>
    \<not> (action = ''list'' \<and> httpMethod req = ''GET'') \<and>
    \<not> (action = ''approve'' \<and> httpMethod req = ''POST'')"
  then have g: "handlePairingHttpRequest e req =
          (fst (authorizeRequest e req) @ fst (dispatchAction e req ch action),
           snd (dispatchAction e req ch action))"
    by (blast intro: handle_accepted)
  have d: "dispatchAction e req ch action = ([], Returned (Sent 404 (ErrorBody ''Not Found'')))"
    using h by (auto simp: dispatchAction_def)
  show "snd (handlePairingHttpRequest e req) = Returned (Sent 404 (ErrorBody ''Not Found''))"
    by (simp add: g d)
  show "\<not> list_ex storeVisible (fst (handlePairingHttpRequest e req))"
    using authorizeRequest_quiet [of e req] by (simp add: g d)
next
  assume h: "routed e req raw action ch \<and> credentialAccepted e req \<and>
    action = ''list'' \<and> httpMethod req = ''GET''"
  then have g: "handlePairingHttpRequest e req =
          (fst (authorizeRequest e req) @ fst (dispatchAction e req ch action),
           snd (dispatchAction e req ch action))"
    by (blast intro: handle_accepted)
  have d: "dispatchAction e req ch action = listAction e ch"
    using h by (simp add: dispatchAction_def)
  show "handlePairingHttpRequest e req =
        (fst (authorizeRequest e req) @ fst (listAction e ch), snd (listAction e ch))"
    by (simp add: g d)
  have q: "filter storeVisible (fst (authorizeRequest e req)) = []"
    using authorizeRequest_quiet [of e req] by (simp add: list_ex_iff filter_empty_conv)
  show "filter storeVisible (fst (handlePairingHttpRequest e req)) = [StoreList ch]"
    by (simp add: g d q listAction_def split: sum.splits)
next
  assume h: "routed e req raw action ch \<and> credentialAccepted e req \<and>
    action = ''approve'' \<and> httpMethod req = ''POST''"
  then have g: "handlePairingHttpRequest e req =
          (fst (authorizeRequest e req) @ fst (dispatchAction e req ch action),
           snd (dispatchAction e req ch action))"
    by (blast intro: handle_accepted)
  have d: "dispatchAction e req ch action = approveAction e req ch"
    using h by (simp add: dispatchAction_def)
  show "handlePairingHttpRequest e req =
        (fst (authorizeRequest e req) @ fst (approveAction e req ch), snd (approveAction e req ch))"
    by (simp add: g d)
next
  assume h: "routed e req raw action ch \<and> credentialAccepted e req \<and>
    action = ''approve'' \<and> httpMethod req = ''POST'' \<and>
    (bodyJson req = None \<or> \<not> typeofObject (bodyJson req) \<or> bodyJson req = Some JNull \<or>
     getProp (bodyJson req) ''code'' = None)"
  then have g: "handlePairingHttpRequest e req =
          (fst (authorizeRequest e req) @ fst (dispatchAction e req ch action),
           snd (dispatchAction e req ch action))"
    by (blast intro: handle_accepted)
  have d: "dispatchAction e req ch action = approveAction e req ch"
    using h by (simp add: dispatchAction_def)
  have c: "bodyCode req = []" using h by (blast intro: bodyCode_unreadable)
  show "snd (handlePairingHttpRequest e req) = Returned (Sent 400 (ErrorBody ''code is required''))"
    by (simp add: g d approveAction_no_code[OF c])
  show "\<not> list_ex storeVisible (fst (handlePairingHttpRequest e req))"
    using authorizeRequest_quiet [of e req] by (simp add: g d approveAction_no_code[OF c])
qed

text \<open>The theorem at local requests against the example store: the bare prefix, an
  unknown action, the list route, and the approve route with a body that is not JSON and
  with a body that holds the pending code.\<close>

theorem http_routing_witness:
  "handlePairingHttpRequest demoEnv (demoRequest ''/api/pairing'' ''GET'' True None None) =
     ([], Returned (Sent 404 (ErrorBody ''Not Found''))) \<and>
   snd (handlePairingHttpRequest demoEnv (demoRequest ''/api/pairing/sms/list'' ''POST'' True None None)) =
     Returned (Sent 404 (ErrorBody ''Not Found'')) \<and>
   handlePairingHttpRequest demoEnv (demoRequest ''/api/pairing/sms/list'' ''GET'' True None None) =
     ([StoreList ''sms''],
      Returned (Sent 200 (ListBody ''sms'' [\<lparr> req_id = ''req_1'', req_code = ''123456'' \<rparr>]))) \<and>
   snd (handlePairingHttpRequest demoEnv (demoRequest ''/api/pairing/sms/approve'' ''POST'' True None None)) =
     Returned (Sent 400 (ErrorBody ''code is required'')) \<and>
   handlePairingHttpRequest demoEnv
     (demoRequest ''/api/pairing/sms/approve'' ''POST'' True None (Some (JObj [(''code'', JStr ''123456'')]))) =
     ([StoreApprove ''sms'' ''123456''], Returned (Sent 200 (ApproveBody ''sms'' ''req_1'' True)))"
proof -
  let ?a = "demoRequest ''/api/pairing'' ''GET'' True None None"
  let ?b = "demoRequest ''/api/pairing/sms/list'' ''POST'' True None None"
  let ?c = "demoRequest ''/api/pairing/sms/list'' ''GET'' True None None"
  let ?d = "demoRequest ''/api/pairing/sms/approve'' ''POST'' True None None"
  let ?f = "demoRequest ''/api/pairing/sms/approve'' ''POST'' True None (Some (JObj [(''code'', JStr ''123456'')]))"
  have a: "startsWith (pathname ?a) PAIRING_BASE_PATH \<and> length (pathParts ?a) \<noteq> 2"
    by (simp add: startsWith_def pathParts_def slice_def demoRequest_def PAIRING_BASE_PATH_def)
  have n: "\<And>p m t b. authorizeRequest demoEnv (demoRequest p m True t b) = ([], AuthPassed)"
    by (simp add: authorizeRequest_def demo_fields)
  from http_routing [of ?a demoEnv] a
  have 1: "handlePairingHttpRequest demoEnv ?a = ([], Returned (Sent 404 (ErrorBody ''Not Found'')))"
    by simp
  from http_routing [of ?b demoEnv "''sms''" "''list''" "''sms''"]
  have 2: "snd (handlePairingHttpRequest demoEnv ?b) = Returned (Sent 404 (ErrorBody ''Not Found''))"
    by (simp add: demo_routed demo_local demo_fields)
  from http_routing [of ?c demoEnv "''sms''" "''list''" "''sms''"]
  have 3: "handlePairingHttpRequest demoEnv ?c =
     ([StoreList ''sms''],
      Returned (Sent 200 (ListBody ''sms'' [\<lparr> req_id = ''req_1'', req_code = ''123456'' \<rparr>])))"
    by (simp add: demo_routed demo_local demo_fields n listAction_def demo_store)
  from http_routing [of ?d demoEnv "''sms''" "''approve''" "''sms''"]
  have 4: "snd (handlePairingHttpRequest demoEnv ?d) = Returned (Sent 400 (ErrorBody ''code is required''))"
    by (simp add: demo_routed demo_local demo_fields approveAction_no_code bodyCode_def readJsonBody_def)
  from http_routing [of ?f demoEnv "''sms''" "''approve''" "''sms''"]
  have 5: "handlePairingHttpRequest demoEnv ?f =
     ([StoreApprove ''sms'' ''123456''], Returned (Sent 200 (ApproveBody ''sms'' ''req_1'' True)))"
    by (simp add: demo_routed demo_local demo_fields n approveAction_def demo_bodyCode trim_digits
        demo_store bodyNotify_def readJsonBody_def)
  from 1 2 3 4 5 show ?thesis by simp
qed

text \<open>A local \<open>GET /api/pairing/xyz!/status\<close> has two segments and a pair of method and
  action that is neither \<open>GET\<close>/\<open>list\<close> nor \<open>POST\<close>/\<open>approve\<close>; it is answered 400, not 404.\<close>

theorem unknown_action_with_bad_channel_is_400:
  "pathParts (demoRequest ''/api/pairing/xyz!/status'' ''GET'' True None None) = [''xyz!'', ''status''] \<and>
   handlePairingHttpRequest demoEnv (demoRequest ''/api/pairing/xyz!/status'' ''GET'' True None None) =
     ([], Returned (Sent 400 (ErrorBody ''Invalid channel: xyz!'')))"
  by (simp add: handle_bad_channel demo_startsWith demo_pathParts demo_store resolve_xyz)

section \<open>Validation errors\<close>

lemma approve_path_without_code_quiet:
  assumes "pathParts req = [raw, ''approve'']" "bodyCode req = []"
  shows "\<not> list_ex storeVisible (fst (handlePairingHttpRequest e req))"
proof -
  have d: "dispatchAction e req c ''approve'' = ([], Returned (Sent 400 (ErrorBody ''code is required'')))
           \<or> dispatchAction e req c ''approve'' = ([], Returned (Sent 404 (ErrorBody ''Not Found'')))" for c
    using assms(2) by (simp add: dispatchAction_def approveAction_no_code)
  show ?thesis
  proof (cases "authorizeRequest e req")
    case (Pair evs a)
    then have q: "\<not> list_ex storeVisible evs"
      using authorizeRequest_quiet [of e req] by simp
    show ?thesis
      using d [of "the (resolveChannel (listPairingChannels e) raw)"] q
      by (auto simp: handlePairingHttpRequest_def assms(1) Let_def Pair split: auth_step.splits)
  qed
qed

text \<open>
  Claim C7, as the code has it. On the gateway adapter, parameters that fail validation, or whose channel
  does not resolve, are answered by \<open>channel.pair.list\<close> and \<open>channel.pair.approve\<close> with
  the code \<open>INVALID_REQUEST\<close> and no call at all is made. On the HTTP adapter a request
  with two segments whose channel does not resolve is answered 400 and no call at all is
  made. The code of an approve request is checked after the credential: with an empty or
  missing code, a \<open>POST\<close> on the approve path whose credential is accepted is answered
  400, and one whose credential is refused is answered 401. Whatever the credential and
  the method, a request on the approve path with an empty or missing code makes no call
  to the store or the notifier.
\<close>

theorem validation_error_makes_no_call:
  "(\<not> validateChannelPairListParams params \<longrightarrow>
      channel_pair_list e params =
        ([], Returned (Respond False None (Some (errorShape INVALID_REQUEST
           ''invalid channel.pair.list params: channel (string) required''))))) \<and>
   (validateChannelPairListParams params \<and>
    noChannel (resolveChannel (listPairingChannels e) (stringOf (getProp params ''channel''))) \<longrightarrow>
      channel_pair_list e params =
        ([], Returned (Respond False None (Some (errorShape INVALID_REQUEST
           (''invalid channel: '' @ stringOf (getProp params ''channel''))))))) \<and>
   (\<not> validateChannelPairApproveParams params \<longrightarrow>
      channel_pair_approve e params =
        ([], Returned (Respond False None (Some (errorShape INVALID_REQUEST
           ''invalid channel.pair.approve params: channel (string) and code (string) required''))))) \<and>
   (validateChannelPairApproveParams params \<and>
    noChannel (resolveChannel (listPairingChannels e) (stringOf (getProp params ''channel''))) \<longrightarrow>
      channel_pair_approve e params =
        ([], Returned (Respond False None (Some (errorShape INVALID_REQUEST
           (''invalid channel: '' @ stringOf (getProp params ''channel''))))))) \<and>
   (startsWith (pathname req) PAIRING_BASE_PATH \<and> pathParts req = [raw, action] \<and>
    noChannel (resolveChannel (listPairingChannels e) raw) \<longrightarrow>
      handlePairingHttpRequest e req =
        ([], Returned (Sent 400 (ErrorBody (''Invalid channel: '' @ raw))))) \<and>
   (routed e req raw ''approve'' ch \<and> httpMethod req = ''POST'' \<and> credentialAccepted e req \<and>
    bodyCode req = [] \<longrightarrow>
      snd (handlePairingHttpRequest e req) = Returned (Sent 400 (ErrorBody ''code is required''))) \<and>
   (routed e req raw ''approve'' ch \<and> credentialRefused e req \<and> bodyCode req = [] \<longrightarrow>
      snd (handlePairingHttpRequest e req) = Returned (Sent 401 (ErrorBody ''Unauthorized''))) \<and>
   (pathParts req = [raw, ''approve''] \<and> bodyCode req = [] \<longrightarrow>
      \<not> list_ex storeVisible (fst (handlePairingHttpRequest e req)))"
proof (intro conjI impI)
  assume h: "routed e req raw ''approve'' ch \<and> httpMethod req = ''POST'' \<and> credentialAccepted e req \<and>
    bodyCode req = []"
  then have g: "handlePairingHttpRequest e req =
          (fst (authorizeRequest e req) @ fst (dispatchAction e req ch ''approve''),
           snd (dispatchAction e req ch ''approve''))"
    by (blast intro: handle_accepted)
  have d: "dispatchAction e req ch ''approve'' = ([], Returned (Sent 400 (ErrorBody ''code is required'')))"
    using h by (simp add: dispatchAction_def approveAction_no_code)
  show "snd (handlePairingHttpRequest e req) = Returned (Sent 400 (ErrorBody ''code is required''))"
    by (simp add: g d)
next
  assume "routed e req raw ''approve'' ch \<and> credentialRefused e req \<and> bodyCode req = []"
  then have "handlePairingHttpRequest e req =
          (fst (authorizeRequest e req), Returned (Sent 401 (ErrorBody ''Unauthorized'')))"
    by (blast intro: handle_refused)
  then show "snd (handlePairingHttpRequest e req) = Returned (Sent 401 (ErrorBody ''Unauthorized''))"
    by simp
next
  assume "pathParts req = [raw, ''approve''] \<and> bodyCode req = []"
  then show "\<not> list_ex storeVisible (fst (handlePairingHttpRequest e req))"
    by (simp add: approve_path_without_code_quiet)
qed (simp_all add: channel_pair_list_def channel_pair_approve_def handle_bad_channel Let_def)

text \<open>The theorem at parameters without a channel, at the channel \<open>xyz!\<close> on both
  adapters, and at an approve request whose body has no code, once from a local caller
  and once with a bearer token that the authorization engine refuses.\<close>

theorem validation_error_makes_no_call_witness:
  "channel_pair_list demoEnv (Some (JObj [])) =
     ([], Returned (Respond False None (Some (errorShape INVALID_REQUEST
        ''invalid channel.pair.list params: channel (string) required'')))) \<and>
   channel_pair_approve demoEnv (demoParams ''xyz!'' ''123456'') =
     ([], Returned (Respond False None (Some (errorShape INVALID_REQUEST ''invalid channel: xyz!'')))) \<and>
   handlePairingHttpRequest demoEnv (demoRequest ''/api/pairing/xyz!/approve'' ''POST'' True None None) =
     ([], Returned (Sent 400 (ErrorBody ''Invalid channel: xyz!''))) \<and>
   snd (handlePairingHttpRequest demoEnv
          (demoRequest ''/api/pairing/sms/approve'' ''POST'' True None (Some (JObj [])))) =
     Returned (Sent 400 (ErrorBody ''code is required'')) \<and>
   snd (handlePairingHttpRequest demoEnv
          (demoRequest ''/api/pairing/sms/approve'' ''POST'' False (Some ''wrong'') (Some (JObj [])))) =
     Returned (Sent 401 (ErrorBody ''Unauthorized'')) \<and>
   \<not> list_ex storeVisible (fst (handlePairingHttpRequest demoEnv
          (demoRequest ''/api/pairing/sms/approve'' ''POST'' False (Some ''wrong'') (Some (JObj [])))))"
proof -
  let ?u = "demoRequest ''/api/pairing/sms/approve'' ''POST'' False (Some ''wrong'') (Some (JObj []))"
  have u: "routed demoEnv ?u ''sms'' ''approve'' ''sms'' \<and> credentialRefused demoEnv ?u \<and>
           bodyCode ?u = [] \<and> pathParts ?u = [''sms'', ''approve'']"
    by (simp add: demo_routed demo_pathParts credentialRefused_def demo_fields demo_store
        bodyCode_def readJsonBody_def)
  let ?p = "Some (JObj [])"
  let ?q = "demoParams ''xyz!'' ''123456''"
  let ?r = "demoRequest ''/api/pairing/xyz!/approve'' ''POST'' True None None"
  let ?s = "demoRequest ''/api/pairing/sms/approve'' ''POST'' True None (Some (JObj []))"
  have p: "\<not> validateChannelPairListParams ?p"
    by (simp add: validateChannelPairListParams_def)
  have t: "trim ''xyz!'' = ''xyz!''" by code_simp
  have q: "validateChannelPairApproveParams ?q \<and>
           noChannel (resolveChannel (listPairingChannels demoEnv) (stringOf (getProp ?q ''channel'')))"
    by (simp add: demoParams_def validateChannelPairApproveParams_def t trim_digits demo_store resolve_xyz)
  have r: "startsWith (pathname ?r) PAIRING_BASE_PATH \<and> pathParts ?r = [''xyz!'', ''approve''] \<and>
           noChannel (resolveChannel (listPairingChannels demoEnv) ''xyz!'')"
    by (simp add: demo_startsWith demo_pathParts demo_store resolve_xyz)
  have s: "routed demoEnv ?s ''sms'' ''approve'' ''sms'' \<and> httpMethod ?s = ''POST'' \<and>
           credentialAccepted demoEnv ?s \<and> bodyCode ?s = []"
    by (simp add: demo_routed demo_local demo_fields bodyCode_def readJsonBody_def)
  from validation_error_makes_no_call [where e = demoEnv and req = ?u and raw = "''sms''" and ch = "''sms''"] u
  have 5: "snd (handlePairingHttpRequest demoEnv ?u) = Returned (Sent 401 (ErrorBody ''Unauthorized'')) \<and>
           \<not> list_ex storeVisible (fst (handlePairingHttpRequest demoEnv ?u))"
    by blast
  from validation_error_makes_no_call [of ?p demoEnv] p
  have 1: "channel_pair_list demoEnv ?p =
     ([], Returned (Respond False None (Some (errorShape INVALID_REQUEST
        ''invalid channel.pair.list params: channel (string) required''))))"
    by blast
  from validation_error_makes_no_call [of ?q demoEnv] q
  have 2: "channel_pair_approve demoEnv ?q =
     ([], Returned (Respond False None (Some (errorShape INVALID_REQUEST ''invalid channel: xyz!''))))"
    by (simp add: demoParams_def)
  from validation_error_makes_no_call [of _ demoEnv ?r "''xyz!''" "''approve''"] r
  have 3: "handlePairingHttpRequest demoEnv ?r =
     ([], Returned (Sent 400 (ErrorBody ''Invalid channel: xyz!'')))"
    by simp
  from validation_error_makes_no_call [of _ demoEnv ?s "''sms''" _ "''sms''"] s
  have 4: "snd (handlePairingHttpRequest demoEnv ?s) = Returned (Sent 400 (ErrorBody ''code is required''))"
    by blast
  from 1 2 3 4 5 show ?thesis by simp
qed

text \<open>A \<open>POST /api/pairing/sms/approve\<close> with the body \<open>{}\<close> from a caller that is not local
  and carries no token has no code, and is answered 401, not 400.\<close>

theorem missing_code_without_credential_is_401:
  "bodyCode (demoRequest ''/api/pairing/sms/approve'' ''POST'' False None (Some (JObj []))) = [] \<and>
   handlePairingHttpRequest demoEnv
     (demoRequest ''/api/pairing/sms/approve'' ''POST'' False None (Some (JObj []))) =
     ([], Returned (Sent 401 (ErrorBody ''Unauthorized'')))"
  by (simp add: handle_refused [OF demo_routed(1) demo_anonymous] authorizeRequest_def demo_fields
      bodyCode_def readJsonBody_def)

section \<open>Notification and broadcast\<close>

lemma approve_matched_quiet:
  "\<not> truthy (getProp params ''notify'') \<Longrightarrow> \<not> list_ex isNotify (fst (approve_matched e params ch i))"
  by (simp add: approve_matched_def)

lemma gateway_approve_no_notify:
  assumes "\<not> truthy (getProp params ''notify'')"
  shows "\<not> list_ex isNotify (fst (channel_pair_approve e params))"
  using approve_matched_quiet [OF assms]
  by (auto simp: channel_pair_approve_def Let_def case_prod_beta split: sum.splits option.splits)

lemma authorizeRequest_no_notify: "\<not> list_ex isNotify (fst (authorizeRequest e req))"
  by (auto simp: authorizeRequest_def split: option.splits sum.splits)

lemma dispatch_no_notify:
  assumes "\<not> bodyNotify req"
  shows "\<not> list_ex isNotify (fst (dispatchAction e req ch action))"
  using assms
  by (auto simp: dispatchAction_def listAction_def approveAction_def Let_def
           split: sum.splits option.splits)

lemma http_no_notify:
  assumes "\<not> bodyNotify req"
  shows "\<not> list_ex isNotify (fst (handlePairingHttpRequest e req))"
proof (cases "authorizeRequest e req")
  case (Pair evs a)
  then have q: "\<not> list_ex isNotify evs"
    using authorizeRequest_no_notify [of e req] by simp
  obtain evs' r where d: "dispatchAction e req (the (resolveChannel (listPairingChannels e) (hd (pathParts req)))) (hd (tl (pathParts req))) = (evs', r)"
    by (cases "dispatchAction e req (the (resolveChannel (listPairingChannels e) (hd (pathParts req)))) (hd (tl (pathParts req)))")
  then have q': "\<not> list_ex isNotify evs'"
    using dispatch_no_notify [OF assms, of e _ "hd (tl (pathParts req))"] by (metis fst_conv)
  show ?thesis
    using q q' d
    by (auto simp: handlePairingHttpRequest_def Let_def Pair split: list.splits auth_step.splits)
qed

lemma approve_matched_rejected:
  assumes "truthy (getProp params ''notify'')" "loadConfig e = Inr cfg"
    "notifyPairingApproved e ch i cfg = Some err"
  shows "approve_matched e params ch i =
     ([LogInfo (''channel pairing approved channel='' @ ch @ '' id='' @ i),
       Broadcast ''channel.pair.resolved'' ch i ''approved'' (now e) True,
       LoadConfig, Notify ch i cfg,
       LogWarn (''failed to notify pairing requester: '' @ err)],
      Returned (Respond True (Some (ApprovePayload ch i True)) None))"
  using assms by (simp add: approve_matched_def)

lemma approveAction_rejected:
  assumes "bodyCode req \<noteq> []" "approveChannelPairingCode e ch (bodyCode req) = Inr (Some i)"
    "bodyNotify req" "loadConfig e = Inr cfg" "notifyPairingApproved e ch i cfg = Some err"
  shows "approveAction e req ch =
     ([StoreApprove ch (bodyCode req), LoadConfig, Notify ch i cfg],
      Returned (Sent 200 (ApproveBody ch i True)))"
  using assms by (simp add: approveAction_def Let_def)

text \<open>
  Claim C5. On both adapters an Approve whose \<open>notify\<close> is absent or \<open>false\<close> never calls
  the notifier. An Approve with \<open>notify\<close> \<open>true\<close> that the store approves, and whose
  notifier is called and rejects, still returns the success result with the channel, the
  id and \<open>approved: true\<close>: \<open>respond(true, ...)\<close> on the gateway, status 200 on HTTP.
\<close>

theorem notifier_failure_keeps_success:
  "(getProp params ''notify'' = None \<or> getProp params ''notify'' = Some (JBool False) \<longrightarrow>
      \<not> list_ex isNotify (fst (channel_pair_approve e params))) \<and>
   (getProp (readJsonBody (bodyJson req)) ''notify'' = None \<or>
    getProp (readJsonBody (bodyJson req)) ''notify'' = Some (JBool False) \<longrightarrow>
      \<not> list_ex isNotify (fst (handlePairingHttpRequest e req))) \<and>
   (validateChannelPairApproveParams params \<and> gatewayResolved e params ch \<and>
    approveChannelPairingCode e ch (stringOf (getProp params ''code'')) = Inr (Some i) \<and>
    getProp params ''notify'' = Some (JBool True) \<and> loadConfig e = Inr cfg \<and>
    notifyPairingApproved e ch i cfg = Some err \<longrightarrow>
      snd (channel_pair_approve e params) =
        Returned (Respond True (Some (ApprovePayload ch i True)) None) \<and>
      filter isNotify (fst (channel_pair_approve e params)) = [Notify ch i cfg]) \<and>
   (routed e req raw ''approve'' ch \<and> httpMethod req = ''POST'' \<and> credentialAccepted e req \<and>
    bodyCode req \<noteq> [] \<and> approveChannelPairingCode e ch (bodyCode req) = Inr (Some i) \<and>
    getProp (readJsonBody (bodyJson req)) ''notify'' = Some (JBool True) \<and> loadConfig e = Inr cfg \<and>
    notifyPairingApproved e ch i cfg = Some err \<longrightarrow>
      snd (handlePairingHttpRequest e req) = Returned (Sent 200 (ApproveBody ch i True)) \<and>
      filter isNotify (fst (handlePairingHttpRequest e req)) = [Notify ch i cfg])"
proof (intro conjI impI)
  assume "getProp params ''notify'' = None \<or> getProp params ''notify'' = Some (JBool False)"
  then have "\<not> truthy (getProp params ''notify'')" by auto
  then show "\<not> list_ex isNotify (fst (channel_pair_approve e params))"
    by (rule gateway_approve_no_notify)
next
  assume "getProp (readJsonBody (bodyJson req)) ''notify'' = None \<or>
    getProp (readJsonBody (bodyJson req)) ''notify'' = Some (JBool False)"
  then have "\<not> bodyNotify req" by (auto simp: bodyNotify_def)
  then show "\<not> list_ex isNotify (fst (handlePairingHttpRequest e req))"
    by (rule http_no_notify)
next
  assume h: "validateChannelPairApproveParams params \<and> gatewayResolved e params ch \<and>
    approveChannelPairingCode e ch (stringOf (getProp params ''code'')) = Inr (Some i) \<and>
    getProp params ''notify'' = Some (JBool True) \<and> loadConfig e = Inr cfg \<and>
    notifyPairingApproved e ch i cfg = Some err"
  then have m: "approve_matched e params ch i =
     ([LogInfo (''channel pairing approved channel='' @ ch @ '' id='' @ i),
       Broadcast ''channel.pair.resolved'' ch i ''approved'' (now e) True,
       LoadConfig, Notify ch i cfg,
       LogWarn (''failed to notify pairing requester: '' @ err)],
      Returned (Respond True (Some (ApprovePayload ch i True)) None))"
    by (simp add: approve_matched_rejected)
  have g: "channel_pair_approve e params =
          (StoreApprove ch (stringOf (getProp params ''code'')) # fst (approve_matched e params ch i),
           snd (approve_matched e params ch i))"
    using gateway_approve_valid [of params e ch] h by simp
  show "snd (channel_pair_approve e params) =
        Returned (Respond True (Some (ApprovePayload ch i True)) None)"
    by (simp add: g m)
  show "filter isNotify (fst (channel_pair_approve e params)) = [Notify ch i cfg]"
    by (simp add: g m)
next
  assume h: "routed e req raw ''approve'' ch \<and> httpMethod req = ''POST'' \<and> credentialAccepted e req \<and>
    bodyCode req \<noteq> [] \<and> approveChannelPairingCode e ch (bodyCode req) = Inr (Some i) \<and>
    getProp (readJsonBody (bodyJson req)) ''notify'' = Some (JBool True) \<and> loadConfig e = Inr cfg \<and>
    notifyPairingApproved e ch i cfg = Some err"
  then have g: "handlePairingHttpRequest e req =
          (fst (authorizeRequest e req) @ fst (dispatchAction e req ch ''approve''),
           snd (dispatchAction e req ch ''approve''))"
    by (blast intro: handle_accepted)
  have d: "dispatchAction e req ch ''approve'' =
     ([StoreApprove ch (bodyCode req), LoadConfig, Notify ch i cfg],
      Returned (Sent 200 (ApproveBody ch i True)))"
    using h by (simp add: dispatchAction_def approveAction_rejected bodyNotify_def)
  have q: "filter isNotify (fst (authorizeRequest e req)) = []"
    using authorizeRequest_no_notify [of e req] by (simp add: list_ex_iff filter_empty_conv)
  show "snd (handlePairingHttpRequest e req) = Returned (Sent 200 (ApproveBody ch i True))"
    by (simp add: g d)
  show "filter isNotify (fst (handlePairingHttpRequest e req)) = [Notify ch i cfg]"
    by (simp add: g d q)
qed

text \<open>The theorem against the example collaborators, whose notifier always rejects:
  without \<open>notify\<close> no call to it, with \<open>notify: true\<close> the approval still succeeds.\<close>

theorem notifier_failure_keeps_success_witness:
  "\<not> list_ex isNotify (fst (channel_pair_approve demoEnv (demoParams ''sms'' ''123456''))) \<and>
   \<not> list_ex isNotify (fst (handlePairingHttpRequest demoEnv
       (demoRequest ''/api/pairing/sms/approve'' ''POST'' True None
          (Some (JObj [(''code'', JStr ''123456''), (''notify'', JBool False)]))))) \<and>
   snd (channel_pair_approve demoEnv
          (Some (JObj [(''channel'', JStr ''sms''), (''code'', JStr ''123456''), (''notify'', JBool True)]))) =
     Returned (Respond True (Some (ApprovePayload ''sms'' ''req_1'' True)) None) \<and>
   snd (handlePairingHttpRequest demoEnv
          (demoRequest ''/api/pairing/sms/approve'' ''POST'' True None
             (Some (JObj [(''code'', JStr ''123456''), (''notify'', JBool True)])))) =
     Returned (Sent 200 (ApproveBody ''sms'' ''req_1'' True))"
proof -
  let ?p = "Some (JObj [(''channel'', JStr ''sms''), (''code'', JStr ''123456''), (''notify'', JBool True)])"
  let ?f = "demoRequest ''/api/pairing/sms/approve'' ''POST'' True None
          (Some (JObj [(''code'', JStr ''123456''), (''notify'', JBool False)]))"
  let ?t = "demoRequest ''/api/pairing/sms/approve'' ''POST'' True None
          (Some (JObj [(''code'', JStr ''123456''), (''notify'', JBool True)]))"
  have p: "validateChannelPairApproveParams ?p \<and> gatewayResolved demoEnv ?p ''sms'' \<and>
    approveChannelPairingCode demoEnv ''sms'' (stringOf (getProp ?p ''code'')) = Inr (Some ''req_1'') \<and>
    getProp ?p ''notify'' = Some (JBool True) \<and> loadConfig demoEnv = Inr (Config ''default'') \<and>
    notifyPairingApproved demoEnv ''sms'' ''req_1'' (Config ''default'') = Some ''delivery failed''"
    by (simp add: demo_validate trim_digits demo_gatewayResolved demo_store)
  have t: "routed demoEnv ?t ''sms'' ''approve'' ''sms'' \<and> httpMethod ?t = ''POST'' \<and>
    credentialAccepted demoEnv ?t \<and> bodyCode ?t \<noteq> [] \<and>
    approveChannelPairingCode demoEnv ''sms'' (bodyCode ?t) = Inr (Some ''req_1'') \<and>
    getProp (readJsonBody (bodyJson ?t)) ''notify'' = Some (JBool True) \<and>
    loadConfig demoEnv = Inr (Config ''default'') \<and>
    notifyPairingApproved demoEnv ''sms'' ''req_1'' (Config ''default'') = Some ''delivery failed''"
    by (simp add: demo_routed demo_local demo_fields demo_bodyCode trim_digits demo_store readJsonBody_def)
  have f: "getProp (readJsonBody (bodyJson ?f)) ''notify'' = Some (JBool False)"
    by (simp add: demo_fields readJsonBody_def)
  have a: "getProp (demoParams ''sms'' ''123456'') ''notify'' = None"
    by (simp add: demoParams_def)
  from notifier_failure_keeps_success [where params = "demoParams ''sms'' ''123456''" and e = demoEnv] a
  have 1: "\<not> list_ex isNotify (fst (channel_pair_approve demoEnv (demoParams ''sms'' ''123456'')))"
    by blast
  from notifier_failure_keeps_success [where req = ?f and e = demoEnv] f
  have 2: "\<not> list_ex isNotify (fst (handlePairingHttpRequest demoEnv ?f))"
    by blast
  from notifier_failure_keeps_success
         [where params = ?p and e = demoEnv and ch = "''sms''" and i = "''req_1''"
            and cfg = "Config ''default''" and err = "''delivery failed''"] p
  have 3: "snd (channel_pair_approve demoEnv ?p) =
     Returned (Respond True (Some (ApprovePayload ''sms'' ''req_1'' True)) None)"
    by blast
  from notifier_failure_keeps_success
         [where req = ?t and e = demoEnv and ch = "''sms''" and i = "''req_1''"
            and cfg = "Config ''default''" and err = "''delivery failed''" and raw = "''sms''"] t
  have 4: "snd (handlePairingHttpRequest demoEnv ?t) =
     Returned (Sent 200 (ApproveBody ''sms'' ''req_1'' True))"
    by blast
  from 1 2 3 4 show ?thesis by blast
qed

section \<open>The broadcast\<close>

lemma approve_matched_broadcast:
  "filter isBroadcast (fst (approve_matched e params ch i)) =
     [Broadcast ''channel.pair.resolved'' ch i ''approved'' (now e) True]"
  by (simp add: approve_matched_def Let_def split: sum.splits option.splits)

lemma gateway_list_no_broadcast:
  "\<not> list_ex isBroadcast (fst (channel_pair_list e params))"
  by (simp add: channel_pair_list_def Let_def split: sum.splits)

lemma dispatch_no_broadcast:
  "\<not> list_ex isBroadcast (fst (dispatchAction e req ch action))"
  by (auto simp: dispatchAction_def listAction_def approveAction_def Let_def
           split: sum.splits option.splits)

lemma http_no_broadcast:
  "\<not> list_ex isBroadcast (fst (handlePairingHttpRequest e req))"
proof (cases "authorizeRequest e req")
  case (Pair evs a)
  then have q: "\<not> list_ex isBroadcast evs"
    using authorizeRequest_no_broadcast [of e req] by simp
  show ?thesis
    using q dispatch_no_broadcast [of e req]
    by (auto simp: handlePairingHttpRequest_def Let_def Pair case_prod_beta
             split: list.splits auth_step.splits)
qed

lemma gateway_broadcast_needs_match:
  assumes "list_ex isBroadcast (fst (channel_pair_approve e params))"
  shows "validateChannelPairApproveParams params \<and>
         (\<exists>ch i. gatewayResolved e params ch \<and>
            approveChannelPairingCode e ch (stringOf (getProp params ''code'')) = Inr (Some i))"
proof -
  have v: "validateChannelPairApproveParams params"
    using assms by (auto simp: channel_pair_approve_def split: if_splits)
  let ?c = "resolveChannel (listPairingChannels e) (stringOf (getProp params ''channel''))"
  have n: "\<not> noChannel ?c"
    using assms v by (auto simp: channel_pair_approve_def Let_def split: if_splits)
  then obtain ch where c: "?c = Some ch" "ch \<noteq> []" by (cases ?c) auto
  then have r: "gatewayResolved e params ch" by (simp add: gatewayResolved_def)
  have "\<exists>i. approveChannelPairingCode e ch (stringOf (getProp params ''code'')) = Inr (Some i)"
    using assms by (auto simp: gateway_approve_valid [OF v r] split: sum.splits option.splits)
  with v r show ?thesis by blast
qed

text \<open>
  Claim C6. \<open>channel.pair.approve\<close> emits the broadcast exactly when the store's approve
  operation returns a match: on a match the handler broadcasts once, the event
  \<open>channel.pair.resolved\<close> with the resolved channel, the id the store returned, the
  decision \<open>approved\<close> and the time of the call; and a broadcast in the handler's trace
  means that the parameters were valid, the channel resolved and the store returned a
  match. \<open>channel.pair.list\<close> and the HTTP adapter never broadcast.
\<close>

theorem broadcast_exactly_on_match:
  "(validateChannelPairApproveParams params \<and> gatewayResolved e params ch \<and>
    approveChannelPairingCode e ch (stringOf (getProp params ''code'')) = Inr (Some i) \<longrightarrow>
      filter isBroadcast (fst (channel_pair_approve e params)) =
        [Broadcast ''channel.pair.resolved'' ch i ''approved'' (now e) True]) \<and>
   (list_ex isBroadcast (fst (channel_pair_approve e params)) \<longrightarrow>
      validateChannelPairApproveParams params \<and>
      (\<exists>c j. gatewayResolved e params c \<and>
         approveChannelPairingCode e c (stringOf (getProp params ''code'')) = Inr (Some j))) \<and>
   \<not> list_ex isBroadcast (fst (channel_pair_list e params)) \<and>
   \<not> list_ex isBroadcast (fst (handlePairingHttpRequest e req))"
proof (intro conjI impI)
  assume h: "validateChannelPairApproveParams params \<and> gatewayResolved e params ch \<and>
    approveChannelPairingCode e ch (stringOf (getProp params ''code'')) = Inr (Some i)"
  have g: "channel_pair_approve e params =
          (StoreApprove ch (stringOf (getProp params ''code'')) # fst (approve_matched e params ch i),
           snd (approve_matched e params ch i))"
    using gateway_approve_valid [of params e ch] h by simp
  show "filter isBroadcast (fst (channel_pair_approve e params)) =
        [Broadcast ''channel.pair.resolved'' ch i ''approved'' (now e) True]"
    by (simp add: g approve_matched_broadcast)
next
  assume "list_ex isBroadcast (fst (channel_pair_approve e params))"
  then have b: "validateChannelPairApproveParams params \<and>
         (\<exists>ch i. gatewayResolved e params ch \<and>
            approveChannelPairingCode e ch (stringOf (getProp params ''code'')) = Inr (Some i))"
    by (rule gateway_broadcast_needs_match)
  from b show "validateChannelPairApproveParams params" by blast
  from b show "\<exists>c j. gatewayResolved e params c \<and>
         approveChannelPairingCode e c (stringOf (getProp params ''code'')) = Inr (Some j)" by blast
next
  show "\<not> list_ex isBroadcast (fst (channel_pair_list e params))"
    by (rule gateway_list_no_broadcast)
  show "\<not> list_ex isBroadcast (fst (handlePairingHttpRequest e req))"
    by (rule http_no_broadcast)
qed

text \<open>The theorem at the pending code of the example store: one broadcast, with channel
  \<open>sms\<close> and id \<open>req_1\<close>; and at a code without a match: none.\<close>

theorem broadcast_exactly_on_match_witness:
  "filter isBroadcast (fst (channel_pair_approve demoEnv (demoParams ''sms'' ''123456''))) =
     [Broadcast ''channel.pair.resolved'' ''sms'' ''req_1'' ''approved'' 1700000000000 True] \<and>
   \<not> list_ex isBroadcast (fst (channel_pair_approve demoEnv (demoParams ''sms'' ''000000'')))"
proof -
  let ?p = "demoParams ''sms'' ''123456''"
  let ?q = "demoParams ''sms'' ''000000''"
  have p: "validateChannelPairApproveParams ?p \<and> gatewayResolved demoEnv ?p ''sms'' \<and>
    approveChannelPairingCode demoEnv ''sms'' (stringOf (getProp ?p ''code'')) = Inr (Some ''req_1'')"
    by (simp add: demoParams_def demo_validate trim_digits demo_gatewayResolved demo_store)
  have q: "\<not> (\<exists>c j. gatewayResolved demoEnv ?q c \<and>
         approveChannelPairingCode demoEnv c (stringOf (getProp ?q ''code'')) = Inr (Some j))"
    by (simp add: demoParams_def demo_store)
  from broadcast_exactly_on_match [where params = ?p and e = demoEnv and ch = "''sms''" and i = "''req_1''"] p
  have 1: "filter isBroadcast (fst (channel_pair_approve demoEnv ?p)) =
     [Broadcast ''channel.pair.resolved'' ''sms'' ''req_1'' ''approved'' 1700000000000 True]"
    by (simp add: demo_store)
  from broadcast_exactly_on_match [where params = ?q and e = demoEnv] q
  have 2: "\<not> list_ex isBroadcast (fst (channel_pair_approve demoEnv ?q))"
    by blast
  from 1 2 show ?thesis by simp
qed

section \<open>The two adapters side by side\<close>








section \<open>Exceptions\<close>

lemma gateway_list_returns: "\<exists>r. snd (channel_pair_list e params) = Returned r"
  by (simp add: channel_pair_list_def Let_def split: sum.splits)

lemma approve_matched_returns: "\<exists>r. snd (approve_matched e params ch i) = Returned r"
  by (simp add: approve_matched_def Let_def split: sum.splits option.splits)

lemma gateway_approve_returns: "\<exists>r. snd (channel_pair_approve e params) = Returned r"
  using approve_matched_returns
  by (simp add: channel_pair_approve_def Let_def case_prod_beta split: sum.splits option.splits)

lemma dispatch_returns: "\<exists>r. snd (dispatchAction e req ch action) = Returned r"
  by (simp add: dispatchAction_def listAction_def approveAction_def Let_def
           split: sum.splits option.splits)

lemma http_returns_unless_authorization_throws:
  assumes "\<And>t err. authorizeGatewayConnect e t t \<noteq> Inl err"
  shows "\<exists>r. snd (handlePairingHttpRequest e req) = Returned r"
proof (cases "authorizeRequest e req")
  case (Pair evs a)
  have "\<And>err. a \<noteq> AuthThrew err"
    using Pair assms by (auto simp: authorizeRequest_def split: if_splits option.splits sum.splits)
  then show ?thesis
    using dispatch_returns [of e req]
    by (cases a) (auto simp: handlePairingHttpRequest_def Let_def Pair case_prod_beta split: list.splits)
qed

text \<open>
  Claim C8 at its failing input. The authorization engine rejects while the HTTP adapter
  awaits it for a request that is not local and carries a bearer token. The call is
  outside every \<open>try\<close> block of the handler, so no response is written and the exception
  leaves the handler. (When the store, the notifier's configuration or the store's list
  throw, both adapters do answer, as \<open>http_returns_unless_authorization_throws\<close> and
  \<open>gateway_approve_returns\<close> show.)
\<close>

theorem authorization_exception_escapes:
  "handlePairingHttpRequest
     (demoEnv \<lparr> authorizeGatewayConnect := (\<lambda>t p. Inl ''Error: auth backend down'') \<rparr>)
     (demoRequest ''/api/pairing/sms/list'' ''GET'' False (Some ''secret'') None) =
     ([Authorize ''secret'' ''secret''], Threw ''Error: auth backend down'')"
proof -
  let ?e = "demoEnv \<lparr> authorizeGatewayConnect := (\<lambda>t p. Inl ''Error: auth backend down'') \<rparr>"
  let ?r = "demoRequest ''/api/pairing/sms/list'' ''GET'' False (Some ''secret'') None"
  have a: "authorizeRequest ?e ?r = ([Authorize ''secret'' ''secret''], AuthThrew ''Error: auth backend down'')"
    by (simp add: authorizeRequest_def demo_fields)
  show ?thesis
    by (simp add: handle_routed [OF demo_routed(2)] a)
qed

end
